theory Spec2Isabelle
  imports Main "HOL-Library.Sublist"
begin

section \<open>Python values and exceptions\<close>

text \<open>
  The two Lambda functions of the repository are Python. Their strings are modelled as
  \<open>string\<close>, each \<open>char\<close> read as one code point below 256; the exceptions they can raise
  are values of \<open>exn\<close>, and a computation that may raise returns \<open>exn + 'a\<close> with
  \<open>Inl\<close> for the exception. \<open>KeyError\<close> carries the argument it was raised with.
\<close>

datatype exn =
    KeyError string
  | IndexError
  | TypeError
  | AttributeError
  | ValueError
  | HTTPError
  | ClientError
  | OtherException

definition bindE :: "exn + 'a \<Rightarrow> ('a \<Rightarrow> exn + 'b) \<Rightarrow> exn + 'b" where
  "bindE r f = (case r of Inl e \<Rightarrow> Inl e | Inr v \<Rightarrow> f v)"

text \<open>\<open>xs[i]\<close> on a Python list: a negative index counts from the end, and an index out
  of range raises \<open>IndexError\<close>.\<close>

definition py_index :: "'a list \<Rightarrow> int \<Rightarrow> exn + 'a" where
  "py_index xs i =
     (if 0 \<le> i \<and> i < int (length xs) then Inr (xs ! nat i)
      else if i < 0 \<and> - int (length xs) \<le> i then Inr (xs ! nat (int (length xs) + i))
      else Inl IndexError)"

text \<open>\<open>s.split(sep)\<close> for a separator of one character: every occurrence cuts, so a
  string with k separators has k + 1 parts.\<close>

fun split_on :: "char \<Rightarrow> string \<Rightarrow> string list" where
  "split_on sep [] = [[]]"
| "split_on sep (c # cs) =
     (if c = sep then [] # split_on sep cs
      else (case split_on sep cs of
              p # ps \<Rightarrow> (c # p) # ps
            | [] \<Rightarrow> [[c]]))"

section \<open>Identifier Resolver\<close>

text \<open>
  \<^verbatim>\<open>
  def get_workspace_id_from_url(workspace_url):
      parts = workspace_url.split('/')
      if 'runs' in parts:
          workspace_name = parts[-3]; org_name = parts[-5]; run_id = parts[-1]
      else:
          workspace_name = parts[-1]; org_name = parts[-3]; run_id = None
      return workspace_name, org_name, run_id
  \<close>
\<close>

definition get_workspace_id_from_url :: "string \<Rightarrow> exn + (string \<times> string \<times> string option)" where
  "get_workspace_id_from_url workspace_url =
     (let parts = split_on CHR ''/'' workspace_url in
      if ''runs'' \<in> set parts then
        bindE (py_index parts (- 3)) (\<lambda>workspace_name.
        bindE (py_index parts (- 5)) (\<lambda>org_name.
        bindE (py_index parts (- 1)) (\<lambda>run_id.
        Inr (workspace_name, org_name, Some run_id))))
      else
        bindE (py_index parts (- 1)) (\<lambda>workspace_name.
        bindE (py_index parts (- 3)) (\<lambda>org_name.
        Inr (workspace_name, org_name, None))))"

section \<open>Log Error Extractor\<close>

text \<open>\<open>s.splitlines()\<close>: a line ends at a line boundary (\<open>\n\<close>, \<open>\r\<close>, \<open>\r\n\<close>,
  \<open>\v\<close>, \<open>\f\<close>, \<open>\x1c\<close>, \<open>\x1d\<close>, \<open>\x1e\<close>, \<open>\x85\<close> among the code points below 256), the
  boundary is dropped, and no empty last line is produced for a text that ends with one.\<close>

definition is_linebreak :: "char \<Rightarrow> bool" where
  "is_linebreak c =
     (c \<in> {CHR 0x0A, CHR 0x0B, CHR 0x0C, CHR 0x0D, CHR 0x1C, CHR 0x1D, CHR 0x1E, CHR 0x85})"

fun splitlines_from :: "string \<Rightarrow> string \<Rightarrow> string list" where
  "splitlines_from cur [] = (if cur = [] then [] else [cur])"
| "splitlines_from cur [c] = (if is_linebreak c then [cur] else [cur @ [c]])"
| "splitlines_from cur (c # d # cs) =
     (if c = CHR 0x0D \<and> d = CHR 0x0A then cur # splitlines_from [] cs
      else if is_linebreak c then cur # splitlines_from [] (d # cs)
      else splitlines_from (cur @ [c]) (d # cs))"

definition splitlines :: "string \<Rightarrow> string list" where
  "splitlines s = splitlines_from [] s"

text \<open>\<open>s.lower()\<close> on code points below 256: the letters A to Z and the upper-case
  letters of Latin-1 (0xC0 to 0xDE, without the multiplication sign 0xD7) move up by 32.\<close>

definition lower_char :: "char \<Rightarrow> char" where
  "lower_char c =
     (let n = (of_char c :: nat)
      in if (65 \<le> n \<and> n \<le> 90) \<or> (192 \<le> n \<and> n \<le> 222 \<and> n \<noteq> 215)
         then char_of (n + 32) else c)"

definition str_lower :: "string \<Rightarrow> string" where
  "str_lower s = map lower_char s"

text \<open>\<open>needle in haystack\<close> on strings.\<close>

fun str_contains :: "string \<Rightarrow> string \<Rightarrow> bool" where
  "str_contains needle [] = (needle = [])"
| "str_contains needle (c # cs) =
     (take (length needle) (c # cs) = needle \<or> str_contains needle cs)"

text \<open>\<open>sep.join(xs)\<close>.\<close>

fun str_join :: "string \<Rightarrow> string list \<Rightarrow> string" where
  "str_join sep [] = []"
| "str_join sep [x] = x"
| "str_join sep (x # y # ys) = x @ sep @ str_join sep (y # ys)"

text \<open>\<open>xs[i:j]\<close>: a negative bound counts from the end, and both bounds are clipped to
  the list.\<close>

definition py_slice :: "'a list \<Rightarrow> int \<Rightarrow> int \<Rightarrow> 'a list" where
  "py_slice xs i j =
     (let n = int (length xs);
          clip = (\<lambda>k. if k < 0 then max 0 (n + k) else min k n)
      in drop (nat (clip i)) (take (nat (clip j)) xs))"

text \<open>
  \<^verbatim>\<open>
  def extract_error_with_context(log_content, context_lines=5):
      log_lines = log_content.splitlines()
      error_lines_with_context = []
      for i, line in enumerate(log_lines):
          if any(keyword in line.lower() for keyword in ['"@level":"error"', 'error:']):
              end_index = min(i + context_lines + 1, len(log_lines))
              error_context = log_lines[i:end_index]
              error_lines_with_context.extend(error_context)
              error_lines_with_context.append("")
      return "\n".join(error_lines_with_context)
  \<close>
  \<open>is_error_line\<close> is the condition of the \<open>if\<close>; \<open>extract_loop\<close> is the \<open>for\<close> loop over
  the enumerated lines, with \<open>error_lines_with_context\<close> as its accumulator.
\<close>

definition error_keywords :: "string list" where
  \<open>error_keywords = [''"@level":"error"'', ''error:'']\<close>

definition is_error_line :: "string \<Rightarrow> bool" where
  "is_error_line line =
     list_ex (\<lambda>keyword. str_contains keyword (str_lower line)) error_keywords"

fun extract_loop ::
  "string list \<Rightarrow> int \<Rightarrow> (nat \<times> string) list \<Rightarrow> string list \<Rightarrow> string list" where
  "extract_loop log_lines context_lines [] acc = acc"
| "extract_loop log_lines context_lines ((i, line) # rest) acc =
     (if is_error_line line then
        (let end_index = min (int i + context_lines + 1) (int (length log_lines));
             error_context = py_slice log_lines (int i) end_index
         in extract_loop log_lines context_lines rest (acc @ error_context @ [[]]))
      else extract_loop log_lines context_lines rest acc)"

definition extract_error_with_context :: "string \<Rightarrow> int \<Rightarrow> string" where
  "extract_error_with_context log_content context_lines =
     (let log_lines = splitlines log_content
      in str_join [CHR 0x0A]
           (extract_loop log_lines context_lines (enumerate 0 log_lines) []))"

text \<open>The block the extractor emits for an error-marking line at index \<open>i\<close>: the lines
  \<open>[i, min (i + window + 1, number of lines))\<close>, then one blank separator line.\<close>

definition window_block :: "string list \<Rightarrow> int \<Rightarrow> nat \<Rightarrow> string list" where
  "window_block L w i = map ((!) L) [i..<min (i + nat w + 1) (length L)] @ [[]]"

section \<open>JSON values and the Python operations on them\<close>

text \<open>
  What \<open>json.loads\<close> and \<open>response.json()\<close> return: \<open>None\<close>, a bool, a number, a string, a
  list or a dict. A dict is an association list read with \<open>map_of\<close>. Numbers are integers:
  in every operation below a number that is not an integer behaves as a non-zero one.
  Each operation raises what Python raises on a value of the wrong type.
\<close>

datatype json =
    JNull
  | JBool bool
  | JNum int
  | JStr string
  | JArr "json list"
  | JObj "(string \<times> json) list"

text \<open>Truth value of \<open>x\<close> in \<open>if x\<close> and \<open>not x\<close>.\<close>

fun truthy :: "json \<Rightarrow> bool" where
  "truthy JNull = False"
| "truthy (JBool b) = b"
| "truthy (JNum n) = (n \<noteq> 0)"
| "truthy (JStr s) = (s \<noteq> [])"
| "truthy (JArr xs) = (xs \<noteq> [])"
| "truthy (JObj kvs) = (kvs \<noteq> [])"

text \<open>\<open>x['key']\<close>: \<open>KeyError\<close> on a dict without the key, \<open>TypeError\<close> on anything that
  is not a dict (a list and a string take integer indices only).\<close>

fun subscript :: "json \<Rightarrow> string \<Rightarrow> exn + json" where
  "subscript (JObj kvs) key =
     (case map_of kvs key of Some v \<Rightarrow> Inr v | None \<Rightarrow> Inl (KeyError key))"
| "subscript _ key = Inl TypeError"

text \<open>\<open>x[0]\<close>: the first element of a list, the first character of a string; a dict from
  JSON has string keys only, so \<open>0\<close> is a missing key.\<close>

fun subscript0 :: "json \<Rightarrow> exn + json" where
  "subscript0 (JArr xs) = (case xs of [] \<Rightarrow> Inl IndexError | x # _ \<Rightarrow> Inr x)"
| "subscript0 (JStr s) = (case s of [] \<Rightarrow> Inl IndexError | c # _ \<Rightarrow> Inr (JStr [c]))"
| "subscript0 (JObj kvs) = Inl (KeyError ''0'')"
| "subscript0 _ = Inl TypeError"

text \<open>\<open>'key' in x\<close>: a key of a dict, an element of a list, a substring of a string.\<close>

fun py_in :: "string \<Rightarrow> json \<Rightarrow> exn + bool" where
  "py_in key (JObj kvs) = Inr (map_of kvs key \<noteq> None)"
| "py_in key (JArr xs) = Inr (JStr key \<in> set xs)"
| "py_in key (JStr s) = Inr (str_contains key s)"
| "py_in key _ = Inl TypeError"

text \<open>\<open>x.get('key', default)\<close>: only a dict has the method.\<close>

fun py_get :: "json \<Rightarrow> string \<Rightarrow> json \<Rightarrow> exn + json" where
  "py_get (JObj kvs) key d = Inr (case map_of kvs key of Some v \<Rightarrow> v | None \<Rightarrow> d)"
| "py_get _ key d = Inl AttributeError"

text \<open>\<open>len(x)\<close>.\<close>

fun py_len :: "json \<Rightarrow> exn + nat" where
  "py_len (JStr s) = Inr (length s)"
| "py_len (JArr xs) = Inr (length xs)"
| "py_len (JObj kvs) = Inr (length (remdups (map fst kvs)))"
| "py_len _ = Inl TypeError"

text \<open>\<open>for item in x\<close>: the elements of a list, the keys of a dict, the characters of a
  string.\<close>

fun py_iter :: "json \<Rightarrow> exn + json list" where
  "py_iter (JArr xs) = Inr xs"
| "py_iter (JObj kvs) = Inr (map JStr (remdups (map fst kvs)))"
| "py_iter (JStr s) = Inr (map (\<lambda>c. JStr [c]) s)"
| "py_iter _ = Inl TypeError"

text \<open>Whether \<open>x\<close> can be a dict key.\<close>

fun hashable :: "json \<Rightarrow> bool" where
  "hashable (JArr xs) = False"
| "hashable (JObj kvs) = False"
| "hashable _ = True"

section \<open>The world outside: secrets, HTTP, library functions\<close>

text \<open>
  Every URL the code builds is an f-string over the configured \<open>TERRAFORM_API_URL\<close> (or the
  GitLab host) and the values interpolated into it; a \<open>target\<close> records the endpoint and
  those values. A request is a target with the bearer token of its \<open>Authorization\<close> header
  (\<open>None\<close> when no header is sent). An \<open>effect\<close> is one call that left the process; a
  computation takes the list of the effects so far and returns its result, or the
  exception it raised, with the extended list. The remote side answers a call knowing the
  effects before it, so the same request may be answered differently each time.
\<close>

datatype target =
    RunById string
  | WorkspaceByName string string
  | RunsOfWorkspace json
  | PlanById json
  | ApplyById json
  | LogUrl json
  | GitlabTree string json
  | GitlabRawFile string string json

datatype request = Request (target: target) (bearer: "json option")

datatype effect = SecretRead "string option" | HttpGet request

record response =
  status_code :: nat
  body_text :: string
  body_json :: "exn + json"

record python =
  json_loads :: "string \<Rightarrow> exn + json"
  json_dumps :: "json \<Rightarrow> string"
  exc_str :: "exn \<Rightarrow> string"

record env = python +
  TERRAFORM_SECRET_NAME :: "string option"
  VCS_SECRET_NAME :: "string option"
  get_secret_value :: "effect list \<Rightarrow> string option \<Rightarrow> exn + string option"
  http_get :: "effect list \<Rightarrow> request \<Rightarrow> exn + response"

type_synonym 'a io = "effect list \<Rightarrow> (exn + 'a) \<times> effect list"

definition io_return :: "'a \<Rightarrow> 'a io" where
  "io_return v = (\<lambda>t. (Inr v, t))"

definition io_raise :: "exn \<Rightarrow> 'a io" where
  "io_raise e = (\<lambda>t. (Inl e, t))"

definition lift :: "exn + 'a \<Rightarrow> 'a io" where
  "lift r = (\<lambda>t. (r, t))"

definition io_bind :: "'a io \<Rightarrow> ('a \<Rightarrow> 'b io) \<Rightarrow> 'b io" where
  "io_bind m f = (\<lambda>t. case m t of (Inl e, t') \<Rightarrow> (Inl e, t') | (Inr v, t') \<Rightarrow> f v t')"

text \<open>\<open>try: m except Exception as e: h(e)\<close>.\<close>

definition try_except :: "'a io \<Rightarrow> (exn \<Rightarrow> 'a io) \<Rightarrow> 'a io" where
  "try_except m h = (\<lambda>t. case m t of (Inl e, t') \<Rightarrow> h e t' | (Inr v, t') \<Rightarrow> (Inr v, t'))"

text \<open>\<open>requests.get(url, headers=..., timeout=60)\<close>: it raises (a connection error, a
  timeout) or returns a response.\<close>

definition requests_get :: "env \<Rightarrow> request \<Rightarrow> response io" where
  "requests_get env req = (\<lambda>t. (http_get env t req, t @ [HttpGet req]))"

text \<open>\<open>response.raise_for_status()\<close>: \<open>HTTPError\<close> on a status from 400 to 599.\<close>

definition raise_for_status :: "response \<Rightarrow> unit io" where
  "raise_for_status r =
     (if 400 \<le> status_code r \<and> status_code r < 600 then io_raise HTTPError else io_return ())"

text \<open>
  \<^verbatim>\<open>
  def get_secret(secret_name):
      try:
          response = secrets_client.get_secret_value(SecretId=secret_name)
      except ClientError as error:
          logger.error(...); raise error
      if "SecretString" in response:
          return json.loads(response["SecretString"])
      else:
          raise ValueError("Secret binary is not supported")
  \<close>
  The answer of the secret store is the \<open>SecretString\<close> of the response when it has one.
\<close>

definition secrets_client_get_secret_value :: "env \<Rightarrow> string option \<Rightarrow> string option io" where
  "secrets_client_get_secret_value env secret_name =
     (\<lambda>t. (get_secret_value env t secret_name, t @ [SecretRead secret_name]))"

definition get_secret :: "env \<Rightarrow> string option \<Rightarrow> json io" where
  "get_secret env secret_name =
     io_bind (secrets_client_get_secret_value env secret_name) (\<lambda>response.
       case response of
         Some secret_string \<Rightarrow> lift (json_loads env secret_string)
       | None \<Rightarrow> io_raise ValueError)"

section \<open>Run Diagnoser\<close>

text \<open>
  \<open>get_latest_run_error\<close>, lines 57 to 110 of \<open>fetch-error-code-details.py\<close>: the run to
  inspect. With a truthy \<open>run_id\<close> it is the \<open>data\<close> of the run endpoint's answer. Otherwise
  the workspace is looked up, then its runs; the handlers of these two \<open>try\<close> blocks log and
  re-raise. \<open>Inl s\<close> is the early \<open>return s\<close> of line 107, \<open>Inr latest_run\<close> the run found.
  The length of \<open>runs_data\<close> is taken for a log message, which raises on a value without a
  length.
\<close>

definition fetch_run_by_id :: "env \<Rightarrow> json \<Rightarrow> string \<Rightarrow> json io" where
  "fetch_run_by_id env tfe_api_token run_id =
     io_bind (requests_get env (Request (RunById run_id) (Some tfe_api_token))) (\<lambda>runs_response.
     io_bind (raise_for_status runs_response) (\<lambda>_.
     io_bind (lift (body_json runs_response)) (\<lambda>doc.
     lift (subscript doc ''data''))))"

definition fetch_workspace_id :: "env \<Rightarrow> json \<Rightarrow> string \<Rightarrow> string \<Rightarrow> json io" where
  "fetch_workspace_id env tfe_api_token workspace_name org_name =
     io_bind (requests_get env
                (Request (WorkspaceByName org_name workspace_name) (Some tfe_api_token)))
       (\<lambda>workspace_response.
     io_bind (raise_for_status workspace_response) (\<lambda>_.
     io_bind (lift (body_json workspace_response)) (\<lambda>doc.
     io_bind (lift (subscript doc ''data'')) (\<lambda>data.
     lift (subscript data ''id'')))))"

definition fetch_runs_data :: "env \<Rightarrow> json \<Rightarrow> json \<Rightarrow> json io" where
  "fetch_runs_data env tfe_api_token workspace_id =
     io_bind (requests_get env (Request (RunsOfWorkspace workspace_id) (Some tfe_api_token)))
       (\<lambda>runs_response.
     io_bind (raise_for_status runs_response) (\<lambda>_.
     io_bind (lift (body_json runs_response)) (\<lambda>doc.
     io_bind (lift (subscript doc ''data'')) (\<lambda>runs_data.
     io_bind (lift (py_len runs_data)) (\<lambda>_.
     io_return runs_data)))))"

definition latest_run_of_workspace ::
  "env \<Rightarrow> string \<Rightarrow> string \<Rightarrow> json \<Rightarrow> (string + json) io" where
  "latest_run_of_workspace env workspace_name org_name tfe_api_token =
     io_bind (fetch_workspace_id env tfe_api_token workspace_name org_name) (\<lambda>workspace_id.
     io_bind (fetch_runs_data env tfe_api_token workspace_id) (\<lambda>runs_data.
     if \<not> truthy runs_data then io_return (Inl ''No runs found for the workspace.'')
     else io_bind (lift (subscript0 runs_data)) (\<lambda>latest_run.
          io_return (Inr latest_run))))"

text \<open>\<open>if run_id:\<close> holds for a run id that is neither \<open>None\<close> nor the empty string.\<close>

definition locate_run ::
  "env \<Rightarrow> string \<Rightarrow> string \<Rightarrow> json \<Rightarrow> string option \<Rightarrow> (string + json) io" where
  "locate_run env workspace_name org_name tfe_api_token run_id =
     (case run_id of
        Some r \<Rightarrow>
          if r \<noteq> [] then
            io_bind (fetch_run_by_id env tfe_api_token r) (\<lambda>latest_run.
            io_return (Inr latest_run))
          else latest_run_of_workspace env workspace_name org_name tfe_api_token
      | None \<Rightarrow> latest_run_of_workspace env workspace_name org_name tfe_api_token)"

text \<open>
  Lines 119 to 141, inside the \<open>try\<close> of the errored branch: the plan sub-resource.
  \<open>Some s\<close> is the \<open>return s\<close> of line 141, \<open>None\<close> is falling through to the apply check.
  Lines 144 to 166 are the same steps on the apply sub-resource.
\<close>

definition logs_error_lines :: "env \<Rightarrow> json \<Rightarrow> string io" where
  "logs_error_lines env log_read_url =
     io_bind (requests_get env (Request (LogUrl log_read_url) None)) (\<lambda>log_response.
     io_bind (raise_for_status log_response) (\<lambda>_.
     io_return (extract_error_with_context (body_text log_response) 5)))"

definition log_read_url_of :: "json \<Rightarrow> exn + json" where
  "log_read_url_of details =
     bindE (py_get details ''data'' (JObj [])) (\<lambda>data.
     bindE (py_get data ''attributes'' (JObj [])) (\<lambda>attributes.
     py_get attributes ''log-read-url'' JNull))"

definition related_id :: "json \<Rightarrow> string \<Rightarrow> exn + json" where
  "related_id latest_run kind =
     bindE (subscript latest_run ''relationships'') (\<lambda>relationships.
     bindE (subscript relationships kind) (\<lambda>rel.
     bindE (subscript rel ''data'') (\<lambda>data.
     subscript data ''id'')))"

definition has_relationship :: "json \<Rightarrow> string \<Rightarrow> exn + bool" where
  "has_relationship latest_run kind =
     bindE (subscript latest_run ''relationships'') (\<lambda>relationships.
     py_in kind relationships)"

definition plan_errors :: "env \<Rightarrow> json \<Rightarrow> json \<Rightarrow> string option io" where
  "plan_errors env tfe_api_token latest_run =
     io_bind (lift (has_relationship latest_run ''plan'')) (\<lambda>has_plan.
     if has_plan then
       io_bind (lift (related_id latest_run ''plan'')) (\<lambda>plan_id.
       io_bind (requests_get env (Request (PlanById plan_id) (Some tfe_api_token))) (\<lambda>plan_response.
       io_bind (raise_for_status plan_response) (\<lambda>_.
       io_bind (lift (body_json plan_response)) (\<lambda>plan_details.
       io_bind (lift (log_read_url_of plan_details)) (\<lambda>log_read_url.
       if truthy log_read_url then
         io_bind (logs_error_lines env log_read_url) (\<lambda>error_lines.
         if error_lines \<noteq> [] then
           io_return (Some (''Plan Error:'' @ [CHR 0x0A] @ error_lines))
         else io_return None)
       else io_return None)))))
     else io_return None)"

definition apply_errors :: "env \<Rightarrow> json \<Rightarrow> json \<Rightarrow> string option io" where
  "apply_errors env tfe_api_token latest_run =
     io_bind (lift (has_relationship latest_run ''apply'')) (\<lambda>has_apply.
     if has_apply then
       io_bind (lift (related_id latest_run ''apply'')) (\<lambda>apply_id.
       io_bind (requests_get env (Request (ApplyById apply_id) (Some tfe_api_token))) (\<lambda>apply_response.
       io_bind (raise_for_status apply_response) (\<lambda>_.
       io_bind (lift (body_json apply_response)) (\<lambda>apply_details.
       io_bind (lift (log_read_url_of apply_details)) (\<lambda>log_read_url.
       if truthy log_read_url then
         io_bind (logs_error_lines env log_read_url) (\<lambda>error_lines.
         if error_lines \<noteq> [] then
           io_return (Some (''Apply Error:'' @ [CHR 0x0A] @ error_lines))
         else io_return None)
       else io_return None)))))
     else io_return None)"

definition no_errors_found :: string where
  "no_errors_found = ''No errors found in the latest run's plan or apply output.''"

text \<open>
  Lines 112 to 174. The status and the id of the run are read outside the \<open>try\<close>; the
  plan and apply checks share one \<open>try\<close>, whose two handlers log the exception and fall
  through to the last \<open>return\<close>.
\<close>

definition diagnose_run :: "env \<Rightarrow> json \<Rightarrow> json \<Rightarrow> string io" where
  "diagnose_run env tfe_api_token latest_run =
     io_bind (lift (subscript latest_run ''attributes'')) (\<lambda>attributes.
     io_bind (lift (subscript attributes ''status'')) (\<lambda>run_status.
     io_bind (lift (subscript latest_run ''id'')) (\<lambda>run_id.
     if run_status = JStr ''errored'' then
       io_bind
         (try_except
            (io_bind (plan_errors env tfe_api_token latest_run) (\<lambda>returned.
               case returned of
                 Some s \<Rightarrow> io_return (Some s)
               | None \<Rightarrow> apply_errors env tfe_api_token latest_run))
            (\<lambda>e. io_return None))
         (\<lambda>returned.
            case returned of
              Some s \<Rightarrow> io_return s
            | None \<Rightarrow> io_return no_errors_found)
     else io_return no_errors_found)))"

definition get_latest_run_error ::
  "env \<Rightarrow> string \<Rightarrow> string \<Rightarrow> json \<Rightarrow> string option \<Rightarrow> string io" where
  "get_latest_run_error env workspace_name org_name tfe_api_token run_id =
     io_bind (locate_run env workspace_name org_name tfe_api_token run_id) (\<lambda>located.
       case located of
         Inl s \<Rightarrow> io_return s
       | Inr latest_run \<Rightarrow> diagnose_run env tfe_api_token latest_run)"

section \<open>Repository Fetcher\<close>

text \<open>
  \<^verbatim>\<open>
  def fetch_files_from_gitlab(repo_url, branch_name, gitlab_token):
      repo_path = repo_url.split("https://gitlab.com/")[-1].rstrip('/')
      api_endpoint = f"https://gitlab.com/api/v4/projects/{quote(repo_path)}/repository/tree?ref={branch_name}&recursive=true"
      response = requests.get(api_endpoint, headers=headers, timeout=60)
      response.raise_for_status()
      files_content = ""
      for item in response.json():
          if item['type'] == 'blob' and any(item['path'].endswith(ext) for ext in ['.tf', '.tfvars']):
              file_response = requests.get(f".../repository/files/{quote(item['path'])}/raw?ref={branch_name}", ...)
              file_response.raise_for_status()
              files_content += f"File: {item['path']}\n"
              files_content += file_response.text + "\n\n"
      return files_content
  \<close>
  The two endpoints are functions of \<open>repo_url\<close>, \<open>branch_name\<close> and the path of the file,
  which the targets \<open>GitlabTree\<close> and \<open>GitlabRawFile\<close> record. \<open>gitlab_item\<close> is the body of
  the loop, from the text collected so far to the text after the item.
\<close>

definition gitlab_item :: "env \<Rightarrow> string \<Rightarrow> json \<Rightarrow> json \<Rightarrow> json \<Rightarrow> string \<Rightarrow> string io" where
  "gitlab_item env repo_url branch_name gitlab_token item files_content =
     io_bind (lift (subscript item ''type'')) (\<lambda>item_type.
     if item_type = JStr ''blob'' then
       io_bind (lift (subscript item ''path'')) (\<lambda>item_path.
       case item_path of
         JStr path \<Rightarrow>
           if suffix ''.tf'' path \<or> suffix ''.tfvars'' path then
             io_bind (requests_get env
                        (Request (GitlabRawFile repo_url path branch_name) (Some gitlab_token)))
               (\<lambda>file_response.
             io_bind (raise_for_status file_response) (\<lambda>_.
             io_return (files_content @ ''File: '' @ path @ [CHR 0x0A]
                          @ body_text file_response @ [CHR 0x0A, CHR 0x0A])))
           else io_return files_content
       | _ \<Rightarrow> io_raise AttributeError)
     else io_return files_content)"

fun gitlab_loop ::
  "env \<Rightarrow> string \<Rightarrow> json \<Rightarrow> json \<Rightarrow> json list \<Rightarrow> string \<Rightarrow> string io" where
  "gitlab_loop env repo_url branch_name gitlab_token [] files_content =
     io_return files_content"
| "gitlab_loop env repo_url branch_name gitlab_token (item # items) files_content =
     io_bind (gitlab_item env repo_url branch_name gitlab_token item files_content)
       (gitlab_loop env repo_url branch_name gitlab_token items)"

definition fetch_files_from_gitlab :: "env \<Rightarrow> json \<Rightarrow> json \<Rightarrow> json \<Rightarrow> string io" where
  "fetch_files_from_gitlab env repo_url branch_name gitlab_token =
     (case repo_url of
        JStr url \<Rightarrow>
          io_bind (requests_get env (Request (GitlabTree url branch_name) (Some gitlab_token)))
            (\<lambda>response.
          io_bind (raise_for_status response) (\<lambda>_.
          io_bind (lift (body_json response)) (\<lambda>tree.
          io_bind (lift (py_iter tree)) (\<lambda>items.
          gitlab_loop env url branch_name gitlab_token items []))))
      | _ \<Rightarrow> io_raise AttributeError)"

section \<open>Diagnosis Request Handler\<close>

text \<open>
  \<open>lambda_handler\<close> of \<open>fetch-error-code-details.py\<close>. The whole body is one \<open>try\<close> whose
  handler returns the status 500 with \<open>str(e)\<close>. \<open>workspace_url.split\<close> exists on a string
  only.
\<close>

definition split_workspace_url :: "json \<Rightarrow> exn + (string \<times> string \<times> string option)" where
  "split_workspace_url workspace_url =
     (case workspace_url of
        JStr url \<Rightarrow> get_workspace_id_from_url url
      | _ \<Rightarrow> Inl AttributeError)"

definition success_response :: "env \<Rightarrow> string \<Rightarrow> string \<Rightarrow> json" where
  "success_response env files_content error_message =
     JObj [(''statusCode'', JNum 200),
           (''body'', JStr (json_dumps env
              (JObj [(''files_content'', JStr files_content),
                     (''error_message'', JStr error_message)])))]"

definition failure_response :: "env \<Rightarrow> exn \<Rightarrow> json" where
  "failure_response env e =
     JObj [(''statusCode'', JNum 500),
           (''body'', JStr (json_dumps env (JObj [(''error'', JStr (exc_str env e))])))]"

definition lambda_handler_fetch :: "env \<Rightarrow> json \<Rightarrow> json io" where
  "lambda_handler_fetch env event =
     try_except
       (io_bind (lift (py_get event ''repo_url'' JNull)) (\<lambda>repo_url.
        io_bind (lift (py_get event ''branch_name'' (JStr ''main''))) (\<lambda>branch_name.
        io_bind (lift (subscript event ''workspace_url'')) (\<lambda>workspace_url.
        io_bind
          (if truthy repo_url then
             io_bind (get_secret env (VCS_SECRET_NAME env)) (\<lambda>vcs_secret.
             io_bind (lift (subscript vcs_secret ''token'')) (\<lambda>gitlab_token.
             fetch_files_from_gitlab env repo_url branch_name gitlab_token))
           else io_return [])
          (\<lambda>files_content.
        io_bind (get_secret env (TERRAFORM_SECRET_NAME env)) (\<lambda>tfe_secret.
        io_bind (lift (subscript tfe_secret ''tfe_api_token'')) (\<lambda>tfe_api_token.
        io_bind (lift (split_workspace_url workspace_url)) (\<lambda>(workspace_name, org_name, run_id).
        io_bind (get_latest_run_error env workspace_name org_name tfe_api_token run_id)
          (\<lambda>error_message.
        io_return (success_response env files_content error_message))))))))))
       (\<lambda>e. io_return (failure_response env e))"

section \<open>Troubleshooting Request Handler\<close>

text \<open>
  \<open>lambda_handler\<close> of \<open>terraform-troubleshooting.py\<close>. Its world is the stage-one Lambda,
  invoked with a JSON payload and answering with the text of its \<open>Payload\<close>, and the Bedrock
  model, invoked with a prompt that the template makes from \<open>error_message\<close> and
  \<open>repo_files_content\<close> and answering with the text of its \<open>body\<close>; either call may raise.
\<close>

record agent_env = python +
  lambda_invoke :: "string \<Rightarrow> exn + string"
  bedrock_invoke_model :: "json \<Rightarrow> json \<Rightarrow> exn + string"

text \<open>
  \<^verbatim>\<open>
  def invoke_bedrock_model(prompt):
      try:
          ...
          response = bedrock.invoke_model(modelId=model_id, body=body, ...)
          response_body = json.loads(response.get('body').read())
          return response_body['content'][0]['text']
      except Exception as e:
          logger.error(...); raise
  \<close>
\<close>

definition invoke_bedrock_model :: "agent_env \<Rightarrow> json \<Rightarrow> json \<Rightarrow> exn + json" where
  "invoke_bedrock_model env error_message repo_files_content =
     bindE (bedrock_invoke_model env error_message repo_files_content) (\<lambda>body.
     bindE (json_loads env body) (\<lambda>response_body.
     bindE (subscript response_body ''content'') (\<lambda>content.
     bindE (subscript0 content) (\<lambda>first.
     subscript first ''text''))))"

text \<open>
  The dict comprehension \<open>{param["name"]: param["value"] for param in parameters}\<close>, as the
  list of the entries written, the last one first: a later entry with the same key
  replaces an earlier one, and a key that is a list or a dict cannot be hashed.
  \<open>properties.get(key, default)\<close> reads the entry written last.
\<close>

fun build_properties :: "json list \<Rightarrow> (json \<times> json) list \<Rightarrow> exn + (json \<times> json) list" where
  "build_properties [] properties = Inr properties"
| "build_properties (param # params) properties =
     bindE (subscript param ''name'') (\<lambda>name.
     bindE (subscript param ''value'') (\<lambda>val.
     if hashable name then build_properties params ((name, val) # properties)
     else Inl TypeError))"

definition properties_get :: "(json \<times> json) list \<Rightarrow> string \<Rightarrow> json \<Rightarrow> json" where
  "properties_get properties key d =
     (case map_of properties (JStr key) of Some v \<Rightarrow> v | None \<Rightarrow> d)"

text \<open>The response envelope of the agent framework, built three times in the handler.\<close>

definition envelope :: "json \<Rightarrow> json \<Rightarrow> json \<Rightarrow> json \<Rightarrow> json" where
  "envelope actionGroup func body messageVersion =
     JObj [(''response'',
              JObj [(''actionGroup'', actionGroup),
                    (''function'', func),
                    (''functionResponse'',
                       JObj [(''responseBody'', JObj [(''TEXT'', JObj [(''body'', body)])])])]),
           (''messageVersion'', messageVersion)]"

definition missing_data_message :: string where
  "missing_data_message =
     ''Neither 'files_content' nor 'error_message' were found in the response from Lambda 2''"

text \<open>
  The body of the \<open>try\<close>. Lines 61 to 82 are the remote call: the properties, the payload,
  the invocation of stage one, and the two \<open>json.loads\<close> that lead to \<open>response_body\<close>;
  \<open>json.loads\<close> takes a string. Lines 85 to 140 turn \<open>response_body\<close> into
  \<open>final_response\<close>, or raise.
\<close>

definition remote_response_body :: "agent_env \<Rightarrow> json \<Rightarrow> exn + json" where
  "remote_response_body env parameters =
     bindE (py_iter parameters) (\<lambda>params.
     bindE (build_properties params []) (\<lambda>properties.
     let workspace_url = properties_get properties ''workspace_url'' JNull;
         repo_url = properties_get properties ''repo_url'' JNull;
         branch_name = properties_get properties ''branch_name'' (JStr ''main'');
         payload = JObj [(''workspace_url'', workspace_url), (''repo_url'', repo_url),
                         (''branch_name'', branch_name)]
     in
     bindE (lambda_invoke env (json_dumps env payload)) (\<lambda>payload_text.
     bindE (json_loads env payload_text) (\<lambda>response_payload.
     bindE (subscript response_payload ''body'') (\<lambda>body.
     case body of JStr s \<Rightarrow> json_loads env s | _ \<Rightarrow> Inl TypeError)))))"

definition troubleshooting_steps_response ::
  "agent_env \<Rightarrow> json \<Rightarrow> json \<Rightarrow> json \<Rightarrow> json \<Rightarrow> exn + json" where
  "troubleshooting_steps_response env event actionGroup func parameters =
     bindE (remote_response_body env parameters) (\<lambda>response_body.
     bindE (py_get response_body ''error_message'' JNull) (\<lambda>error_message.
     bindE (py_get response_body ''files_content'' (JStr [])) (\<lambda>repo_files_content.
     if error_message = JNull \<and> repo_files_content = JStr [] then
       Inl (KeyError missing_data_message)
     else
       bindE (invoke_bedrock_model env error_message repo_files_content) (\<lambda>troubleshooting_steps.
       bindE (subscript event ''messageVersion'') (\<lambda>messageVersion.
       Inr (envelope actionGroup func troubleshooting_steps messageVersion))))))"

text \<open>
  The handler: four reads of the event before the \<open>try\<close>, then the \<open>try\<close> with its two
  handlers, \<open>except KeyError\<close> first and \<open>except Exception\<close> second. Each handler reads
  \<open>event['messageVersion']\<close> again, outside any \<open>try\<close>.
\<close>

definition lambda_handler_troubleshooting :: "agent_env \<Rightarrow> json \<Rightarrow> exn + json" where
  "lambda_handler_troubleshooting env event =
     bindE (subscript event ''agent'') (\<lambda>agent.
     bindE (subscript event ''actionGroup'') (\<lambda>actionGroup.
     bindE (subscript event ''function'') (\<lambda>func.
     bindE (py_get event ''parameters'' (JObj [])) (\<lambda>parameters.
     case troubleshooting_steps_response env event actionGroup func parameters of
       Inr final_response \<Rightarrow> Inr final_response
     | Inl (KeyError k) \<Rightarrow>
         bindE (subscript event ''messageVersion'') (\<lambda>messageVersion.
         Inr (envelope actionGroup func
                (JStr (''Missing required information: '' @ exc_str env (KeyError k)))
                messageVersion))
     | Inl e \<Rightarrow>
         bindE (subscript event ''messageVersion'') (\<lambda>messageVersion.
         Inr (envelope actionGroup func (JStr (''Error: '' @ exc_str env e)) messageVersion))))))"

section \<open>Vocabulary of the claims about the Run Diagnoser\<close>

text \<open>\<open>http_ok env t req r\<close>: the GET of \<open>req\<close>, sent after the effects \<open>t\<close>, returns \<open>r\<close>
  with a status that \<open>raise_for_status\<close> accepts. \<open>http_fails\<close>: it raises, or returns a
  status from 400 to 599.\<close>

definition http_ok :: "env \<Rightarrow> effect list \<Rightarrow> request \<Rightarrow> response \<Rightarrow> bool" where
  "http_ok env t req r =
     (http_get env t req = Inr r \<and> (status_code r < 400 \<or> 600 \<le> status_code r))"

definition http_fails :: "env \<Rightarrow> effect list \<Rightarrow> request \<Rightarrow> bool" where
  "http_fails env t req =
     (case http_get env t req of
        Inl e \<Rightarrow> True
      | Inr r \<Rightarrow> 400 \<le> status_code r \<and> status_code r < 600)"

text \<open>
  \<open>sub_resource_yields env tok run kind endpoint t lines t'\<close>: the run has the relationship
  \<open>kind\<close> (\<open>plan\<close> or \<open>apply\<close>) with an id, the details fetched from \<open>endpoint\<close> carry a truthy
  \<open>log-read-url\<close>, the log fetched from it is extracted to \<open>lines\<close>, and these two fetches
  extend the effects \<open>t\<close> to \<open>t'\<close>.
\<close>

definition sub_resource_yields ::
  "env \<Rightarrow> json \<Rightarrow> json \<Rightarrow> string \<Rightarrow> (json \<Rightarrow> target) \<Rightarrow> effect list \<Rightarrow> string \<Rightarrow> effect list \<Rightarrow> bool" where
  "sub_resource_yields env tok run kind endpoint t lines t' =
     (\<exists>sub_id resp details url log.
        has_relationship run kind = Inr True \<and> related_id run kind = Inr sub_id
      \<and> http_ok env t (Request (endpoint sub_id) (Some tok)) resp
      \<and> body_json resp = Inr details
      \<and> log_read_url_of details = Inr url \<and> truthy url
      \<and> http_ok env (t @ [HttpGet (Request (endpoint sub_id) (Some tok))])
                 (Request (LogUrl url) None) log
      \<and> lines = extract_error_with_context (body_text log) 5
      \<and> t' = t @ [HttpGet (Request (endpoint sub_id) (Some tok)),
                   HttpGet (Request (LogUrl url) None)])"

text \<open>
  \<open>sub_resource_without_log\<close>: the run has the relationship \<open>kind\<close> with an id and its
  details are fetched, but they carry no \<open>log-read-url\<close> (or a falsy one).
\<close>

definition sub_resource_without_log ::
  "env \<Rightarrow> json \<Rightarrow> json \<Rightarrow> string \<Rightarrow> (json \<Rightarrow> target) \<Rightarrow> effect list \<Rightarrow> effect list \<Rightarrow> bool" where
  "sub_resource_without_log env tok run kind endpoint t t' =
     (\<exists>sub_id resp details url.
        has_relationship run kind = Inr True \<and> related_id run kind = Inr sub_id
      \<and> http_ok env t (Request (endpoint sub_id) (Some tok)) resp
      \<and> body_json resp = Inr details
      \<and> log_read_url_of details = Inr url \<and> truthy url = False
      \<and> t' = t @ [HttpGet (Request (endpoint sub_id) (Some tok))])"

text \<open>
  The plan yields nothing: the run has no plan relationship, or the plan has no
  \<open>log-read-url\<close>, or the extraction of the plan's log is empty.
\<close>

definition plan_yields_nothing :: "env \<Rightarrow> json \<Rightarrow> json \<Rightarrow> effect list \<Rightarrow> effect list \<Rightarrow> bool" where
  "plan_yields_nothing env tok run t t' =
     ((has_relationship run ''plan'' = Inr False \<and> t' = t)
      \<or> sub_resource_without_log env tok run ''plan'' PlanById t t'
      \<or> sub_resource_yields env tok run ''plan'' PlanById t [] t')"

text \<open>
  A failure on the plan side: the run has a plan relationship with an id, and either the
  GET of the plan's details fails, or the details carry a truthy \<open>log-read-url\<close> and the GET
  of that log fails. \<open>t'\<close> is \<open>t\<close> with the fetches attempted.
\<close>

definition plan_fetch_fails :: "env \<Rightarrow> json \<Rightarrow> json \<Rightarrow> effect list \<Rightarrow> effect list \<Rightarrow> bool" where
  "plan_fetch_fails env tok run t t' =
     (\<exists>plan_id.
        has_relationship run ''plan'' = Inr True \<and> related_id run ''plan'' = Inr plan_id
      \<and> ((http_fails env t (Request (PlanById plan_id) (Some tok))
           \<and> t' = t @ [HttpGet (Request (PlanById plan_id) (Some tok))])
         \<or> (\<exists>resp details url.
               http_ok env t (Request (PlanById plan_id) (Some tok)) resp
             \<and> body_json resp = Inr details
             \<and> log_read_url_of details = Inr url \<and> truthy url
             \<and> http_fails env (t @ [HttpGet (Request (PlanById plan_id) (Some tok))])
                          (Request (LogUrl url) None)
             \<and> t' = t @ [HttpGet (Request (PlanById plan_id) (Some tok)),
                          HttpGet (Request (LogUrl url) None)])))"

text \<open>An effect that fetches a plan, an apply or a log.\<close>

fun sub_resource_fetch :: "effect \<Rightarrow> bool" where
  "sub_resource_fetch (HttpGet (Request (PlanById p) b)) = True"
| "sub_resource_fetch (HttpGet (Request (ApplyById a) b)) = True"
| "sub_resource_fetch (HttpGet (Request (LogUrl u) b)) = True"
| "sub_resource_fetch e = False"

text \<open>A GET sent to Terraform Cloud or to a log it points to: any GET but those of the
  Repository Fetcher. A read of a secret is not one.\<close>

fun terraform_fetch :: "effect \<Rightarrow> bool" where
  "terraform_fetch (SecretRead name) = False"
| "terraform_fetch (HttpGet (Request (GitlabTree repo branch) b)) = False"
| "terraform_fetch (HttpGet (Request (GitlabRawFile repo path branch) b)) = False"
| "terraform_fetch (HttpGet req) = True"

text \<open>\<open>only_effects P m\<close>: whatever the effects before it, the computation \<open>m\<close> adds only
  effects that satisfy \<open>P\<close>.\<close>

definition only_effects :: "(effect \<Rightarrow> bool) \<Rightarrow> 'a io \<Rightarrow> bool" where
  "only_effects P m = (\<forall>t. \<exists>ext. snd (m t) = t @ ext \<and> list_all P ext)"

section \<open>A sample Terraform Cloud\<close>

text \<open>
  A remote side to run the functions on: one workspace \<open>ws-1\<close> without runs, and a run
  \<open>run-1\<close> of the given status with a plan and an apply. The plan endpoint answers with the
  given status code; the two logs are the given texts.
\<close>

definition ok_json :: "json \<Rightarrow> response" where
  "ok_json doc = \<lparr>status_code = 200, body_text = [], body_json = Inr doc\<rparr>"

definition sample_run :: "string \<Rightarrow> json" where
  "sample_run status =
     JObj [(''id'', JStr ''run-1''),
           (''attributes'', JObj [(''status'', JStr status)]),
           (''relationships'',
              JObj [(''plan'', JObj [(''data'', JObj [(''id'', JStr ''plan-1'')])]),
                    (''apply'', JObj [(''data'', JObj [(''id'', JStr ''apply-1'')])])])]"

definition log_details :: "string \<Rightarrow> json" where
  "log_details url = JObj [(''data'', JObj [(''attributes'', JObj [(''log-read-url'', JStr url)])])]"

definition sample_http :: "string \<Rightarrow> nat \<Rightarrow> string \<Rightarrow> string \<Rightarrow> request \<Rightarrow> exn + response" where
  "sample_http status plan_code plan_log apply_log req =
     (case target req of
        RunById r \<Rightarrow> Inr (ok_json (JObj [(''data'', sample_run status)]))
      | WorkspaceByName org ws \<Rightarrow> Inr (ok_json (JObj [(''data'', JObj [(''id'', JStr ''ws-1'')])]))
      | RunsOfWorkspace w \<Rightarrow> Inr (ok_json (JObj [(''data'', JArr [])]))
      | PlanById p \<Rightarrow>
          Inr \<lparr>status_code = plan_code, body_text = [],
               body_json = Inr (log_details ''https://logs/plan'')\<rparr>
      | ApplyById a \<Rightarrow> Inr (ok_json (log_details ''https://logs/apply''))
      | LogUrl u \<Rightarrow>
          Inr \<lparr>status_code = 200,
               body_text = (if u = JStr ''https://logs/plan'' then plan_log else apply_log),
               body_json = Inl ValueError\<rparr>
      | GitlabTree repo branch \<Rightarrow> Inl OtherException
      | GitlabRawFile repo path branch \<Rightarrow> Inl OtherException)"

definition sample_env :: "string \<Rightarrow> nat \<Rightarrow> string \<Rightarrow> string \<Rightarrow> env" where
  "sample_env status plan_code plan_log apply_log =
     \<lparr>json_loads = (\<lambda>s. if s = ''{tfe}'' then Inr (JObj [(''tfe_api_token'', JStr ''tok'')])
                         else Inl ValueError),
      json_dumps = (\<lambda>doc. []),
      exc_str = (\<lambda>e. []),
      TERRAFORM_SECRET_NAME = Some ''tfe'',
      VCS_SECRET_NAME = Some ''vcs'',
      get_secret_value = (\<lambda>t name. if name = Some ''tfe'' then Inr (Some ''{tfe}'')
                                     else Inl ClientError),
      http_get = (\<lambda>t. sample_http status plan_code plan_log apply_log)\<rparr>"

text \<open>
  The sample Terraform Cloud with a run that is still planning, and a \<open>json.dumps\<close> that
  writes a dict of strings as \<open>key=value;\<close> entries, so that the body of a response can be
  read.
\<close>

definition sample_dumps :: "json \<Rightarrow> string" where
  "sample_dumps doc =
     (case doc of
        JObj kvs \<Rightarrow>
          concat (map (\<lambda>(k, v). k @ ''='' @ (case v of JStr s \<Rightarrow> s | _ \<Rightarrow> ''?'') @ '';'') kvs)
      | _ \<Rightarrow> ''?'')"

definition sample_fetch_env :: env where
  "sample_fetch_env = (sample_env ''planning'' 200 [] []) \<lparr>json_dumps := sample_dumps\<rparr>"

section \<open>A sample agent invocation\<close>

text \<open>
  A stage one that answers every payload with a status 200 whose body holds an empty
  \<open>files_content\<close> and no \<open>error_message\<close>, a model endpoint that is down, and an event of
  the agent framework with one parameter.
\<close>

text \<open>\<open>str(e)\<close> of a \<open>KeyError\<close> is the \<open>repr\<close> of its argument: the argument in single
  quotes, or in double quotes when it holds a single quote and no double quote (for an
  argument with no character to escape). Other exceptions are given a fixed text.\<close>

definition sample_exc_str :: "exn \<Rightarrow> string" where
  "sample_exc_str e =
     (case e of
        KeyError k \<Rightarrow>
          if CHR 0x27 \<in> set k \<and> CHR 0x22 \<notin> set k then [CHR 0x22] @ k @ [CHR 0x22]
          else [CHR 0x27] @ k @ [CHR 0x27]
      | _ \<Rightarrow> ''failure'')"

definition sample_agent_env :: agent_env where
  "sample_agent_env =
     \<lparr>json_loads = (\<lambda>s.
        if s = ''answer'' then Inr (JObj [(''statusCode'', JNum 200), (''body'', JStr ''inner'')])
        else if s = ''inner'' then Inr (JObj [(''files_content'', JStr []), (''error_message'', JNull)])
        else Inl ValueError),
      json_dumps = (\<lambda>doc. ''payload''),
      exc_str = sample_exc_str,
      lambda_invoke = (\<lambda>payload. Inr ''answer''),
      bedrock_invoke_model = (\<lambda>error_message repo_files_content. Inl OtherException)\<rparr>"

definition sample_event :: json where
  "sample_event =
     JObj [(''agent'', JObj [(''name'', JStr ''helper'')]),
           (''actionGroup'', JStr ''troubleshoot''),
           (''function'', JStr ''diagnose''),
           (''messageVersion'', JStr ''1.0''),
           (''parameters'',
              JArr [JObj [(''name'', JStr ''workspace_url''),
                          (''value'', JStr ''https://app.terraform.io/app/acme/workspaces/net'')]])]"

section \<open>Facts about the primitives\<close>

lemma bindE_simps:
  "bindE (Inl e) f = Inl e"
  "bindE (Inr v) f = f v"
  by (simp_all add: bindE_def)

lemma split_on_nonempty: "split_on sep s \<noteq> []"
  by (induction s) (auto split: list.splits)

lemma split_on_no_sep: "sep \<notin> set s \<Longrightarrow> split_on sep s = [s]"
  by (induction s) auto

lemma split_on_append:
  "split_on sep (a @ sep # b) = split_on sep a @ split_on sep b"
proof (induction a)
  case Nil
  show ?case by simp
next
  case (Cons c a)
  obtain p ps where ps: "split_on sep a = p # ps"
    using split_on_nonempty [of sep a] by (cases "split_on sep a") auto
  show ?case using Cons ps by simp
qed

lemma py_index_from_end:
  "0 < k \<Longrightarrow> k \<le> length xs \<Longrightarrow> py_index xs (- int k) = Inr (xs ! (length xs - k))"
  by (simp add: py_index_def nat_diff_distrib')

lemma py_index_too_short:
  "length xs < k \<Longrightarrow> py_index xs (- int k) = Inl IndexError"
  by (simp add: py_index_def)


section \<open>Facts about the extractor's loop\<close>

lemma extract_loop_acc:
  "extract_loop L w ps acc =
     acc @ concat (map (\<lambda>(i, line). py_slice L (int i) (min (int i + w + 1) (int (length L))) @ [[]])
                       (filter (\<lambda>(i, line). is_error_line line) ps))"
  by (induction ps arbitrary: acc) (auto simp: Let_def)

lemma enumerate_nth: "enumerate 0 L = map (\<lambda>i. (i, L ! i)) [0..<length L]"
  using enumerate_map_upt [of 0 "(!) L" "length L"] by (simp add: map_nth)

lemma drop_take_nth: "e \<le> length L \<Longrightarrow> drop i (take e L) = map ((!) L) [i..<e]"
proof (rule nth_equalityI)
  assume le: "e \<le> length L"
  show "length (drop i (take e L)) = length (map ((!) L) [i..<e])"
    using le by simp
  fix k
  assume "k < length (drop i (take e L))"
  then have k: "k < e - i" using le by simp
  then have "i + k < e" by simp
  then show "drop i (take e L) ! k = map ((!) L) [i..<e] ! k"
    using le k by (simp add: nth_map_upt)
qed

lemma py_slice_window:
  assumes "0 \<le> w" "i < length L"
  shows "py_slice L (int i) (min (int i + w + 1) (int (length L)))
         = map ((!) L) [i..<min (i + nat w + 1) (length L)]"
proof -
  have a: "int i + w + 1 = int (i + nat w + 1)"
    using assms by simp
  have e: "min (int i + w + 1) (int (length L)) = int (min (i + nat w + 1) (length L))"
    unfolding a by (simp only: of_nat_min)
  have "py_slice L (int i) (min (int i + w + 1) (int (length L)))
        = drop i (take (min (i + nat w + 1) (length L)) L)"
    unfolding e using assms(2) by (simp add: py_slice_def Let_def)
  also have "\<dots> = map ((!) L) [i..<min (i + nat w + 1) (length L)]"
    by (simp add: drop_take_nth)
  finally show ?thesis .
qed

lemma extract_blocks:
  assumes "0 \<le> w"
  shows "extract_loop L w (enumerate 0 L) [] =
         concat (map (window_block L w) (filter (\<lambda>i. is_error_line (L ! i)) [0..<length L]))"
proof -
  have "extract_loop L w (enumerate 0 L) [] =
        concat (map (\<lambda>i. py_slice L (int i) (min (int i + w + 1) (int (length L))) @ [[]])
                    (filter (\<lambda>i. is_error_line (L ! i)) [0..<length L]))"
    by (simp add: extract_loop_acc enumerate_nth filter_map comp_def)
  also have "\<dots> = concat (map (window_block L w) (filter (\<lambda>i. is_error_line (L ! i)) [0..<length L]))"
    using assms by (intro arg_cong [where f = concat] map_cong refl) (simp add: window_block_def py_slice_window)
  finally show ?thesis .
qed

lemma take_prefix_iff: "(take (length needle) hay = needle) = prefix needle hay"
  by (metis append_take_drop_id prefixI prefixE append_eq_conv_conj)

lemma str_contains_sublist: "str_contains needle hay = sublist needle hay"
  by (induction hay) (simp_all add: sublist_Cons_right take_prefix_iff del: take_Suc_Cons)

lemma extract_no_error_line:
  "\<not> list_ex is_error_line L \<Longrightarrow> extract_loop L w (enumerate 0 L) [] = []"
proof -
  assume n: "\<not> list_ex is_error_line L"
  have "filter (\<lambda>(i, line). is_error_line line) (enumerate 0 L) = []"
    using n by (auto simp: filter_empty_conv list_ex_iff in_set_enumerate_eq)
  then show ?thesis by (simp add: extract_loop_acc)
qed

section \<open>The Log Error Extractor's output\<close>

text \<open>
  Claim C3. For a window of size \<open>w \<ge> 0\<close>, the output of \<open>extract_error_with_context\<close> is
  the newline-join of the blocks of all error-marking lines, in the order of the lines and
  with no deduplication: the block of the marking line at index \<open>i\<close> is the lines
  \<open>[i, min (i + w + 1, n))\<close> followed by one blank line. On the spec's seven-line example with
  window 5 the output is lines 1 to 6, each followed by a newline (the last newline being the
  join before the blank separator), without \<open>line7\<close>. With no marking line the output is the
  empty string.
\<close>

theorem extract_error_with_context_blocks:
  \<open>(0 \<le> w \<longrightarrow>
      extract_error_with_context text w =
        str_join [CHR 0x0A]
          (concat (map (window_block (splitlines text) w)
                       (filter (\<lambda>i. is_error_line (splitlines text ! i))
                               [0..<length (splitlines text)]))))
   \<and> extract_error_with_context
         (''{"@level":"error","msg":"x"}'' @ [CHR 0x0A] @ ''line2'' @ [CHR 0x0A] @ ''line3''
            @ [CHR 0x0A] @ ''line4'' @ [CHR 0x0A] @ ''line5'' @ [CHR 0x0A] @ ''line6''
            @ [CHR 0x0A] @ ''line7'') 5
       = ''{"@level":"error","msg":"x"}'' @ [CHR 0x0A] @ ''line2'' @ [CHR 0x0A] @ ''line3''
            @ [CHR 0x0A] @ ''line4'' @ [CHR 0x0A] @ ''line5'' @ [CHR 0x0A] @ ''line6'' @ [CHR 0x0A]
   \<and> (\<not> list_ex is_error_line (splitlines text) \<longrightarrow> extract_error_with_context text w = [])\<close>
proof (intro conjI impI)
  assume "0 \<le> w"
  then show "extract_error_with_context text w =
        str_join [CHR 0x0A]
          (concat (map (window_block (splitlines text) w)
                       (filter (\<lambda>i. is_error_line (splitlines text ! i))
                               [0..<length (splitlines text)])))"
    by (simp add: extract_error_with_context_def Let_def extract_blocks)
next
  show \<open>extract_error_with_context
         (''{"@level":"error","msg":"x"}'' @ [CHR 0x0A] @ ''line2'' @ [CHR 0x0A] @ ''line3''
            @ [CHR 0x0A] @ ''line4'' @ [CHR 0x0A] @ ''line5'' @ [CHR 0x0A] @ ''line6''
            @ [CHR 0x0A] @ ''line7'') 5
       = ''{"@level":"error","msg":"x"}'' @ [CHR 0x0A] @ ''line2'' @ [CHR 0x0A] @ ''line3''
            @ [CHR 0x0A] @ ''line4'' @ [CHR 0x0A] @ ''line5'' @ [CHR 0x0A] @ ''line6'' @ [CHR 0x0A]\<close>
    by code_simp
next
  assume "\<not> list_ex is_error_line (splitlines text)"
  then show "extract_error_with_context text w = []"
    by (simp add: extract_error_with_context_def Let_def extract_no_error_line)
qed

theorem extract_error_with_context_blocks_witness:
  \<open>(0::int) \<le> 1
   \<and> extract_error_with_context (''Error: a'' @ [CHR 0x0A] @ ''b'' @ [CHR 0x0A] @ ''c'') 1
       = ''Error: a'' @ [CHR 0x0A] @ ''b'' @ [CHR 0x0A]
   \<and> \<not> list_ex is_error_line (splitlines (''all'' @ [CHR 0x0A] @ ''fine''))
   \<and> extract_error_with_context (''all'' @ [CHR 0x0A] @ ''fine'') 1 = []\<close>
proof -
  have h1: "(0::int) \<le> 1" by simp
  have h2: "\<not> list_ex is_error_line (splitlines (''all'' @ [CHR 0x0A] @ ''fine''))"
    by code_simp
  have r: \<open>str_join [CHR 0x0A]
          (concat (map (window_block (splitlines (''Error: a'' @ [CHR 0x0A] @ ''b'' @ [CHR 0x0A] @ ''c'')) 1)
                       (filter (\<lambda>i. is_error_line (splitlines (''Error: a'' @ [CHR 0x0A] @ ''b'' @ [CHR 0x0A] @ ''c'') ! i))
                               [0..<length (splitlines (''Error: a'' @ [CHR 0x0A] @ ''b'' @ [CHR 0x0A] @ ''c''))])))
        = ''Error: a'' @ [CHR 0x0A] @ ''b'' @ [CHR 0x0A]\<close>
    by code_simp
  note a0 = extract_error_with_context_blocks
      [of 1 "''Error: a'' @ [CHR 0x0A] @ ''b'' @ [CHR 0x0A] @ ''c''", THEN conjunct1, THEN mp, OF h1]
  note a = trans [OF a0 r]
  note b = extract_error_with_context_blocks
      [of 1 "''all'' @ [CHR 0x0A] @ ''fine''", THEN conjunct2, THEN conjunct2, THEN mp, OF h2]
  show ?thesis
    by (intro conjI h1 h2 a b)
qed

lemma sublist_map_iff: "sublist ys (map f xs) = (\<exists>s. sublist s xs \<and> map f s = ys)"
proof
  assume "sublist ys (map f xs)"
  then obtain ps ss where "map f xs = ps @ (ys @ ss)" by (auto simp: sublist_def)
  then obtain us vs where x: "xs = us @ vs" and v: "map f vs = ys @ ss"
    by (metis map_eq_append_conv)
  from v obtain b c where "vs = b @ c" "map f b = ys"
    by (metis map_eq_append_conv)
  with x have "sublist b xs \<and> map f b = ys" by (auto simp: sublist_def)
  then show "\<exists>s. sublist s xs \<and> map f s = ys" by blast
next
  assume "\<exists>s. sublist s xs \<and> map f s = ys"
  then obtain s ps ss where "xs = ps @ s @ ss" "map f s = ys"
    by (auto simp: sublist_def)
  then have "map f xs = map f ps @ ys @ map f ss" by simp
  then show "sublist ys (map f xs)" unfolding sublist_def by blast
qed

lemma is_error_line_iff:
  "is_error_line line = (\<exists>s. sublist s line \<and> str_lower s \<in> set error_keywords)"
  by (auto simp: is_error_line_def list_ex_iff str_contains_sublist str_lower_def sublist_map_iff)

lemma filter_upt_split:
  assumes "i < n" "P i"
  shows "filter P [0..<n] = filter P [0..<i] @ i # filter P [Suc i..<n]"
proof -
  have "[0..<n] = [0..<i] @ i # [Suc i..<n]"
    using assms(1) upt_add_eq_append [of 0 i "n - i"] by (simp add: upt_conv_Cons)
  then show ?thesis using assms(2) by simp
qed

section \<open>Which lines the extractor marks\<close>

text \<open>
  Claim C4, as amended. A line that contains, case-insensitively, the structured marker
  \<open>"@level":"error"\<close> (with its \<open>@\<close>) or the substring \<open>error:\<close> is error-marking, and its
  block (the line, its trailing context window and the blank separator) is part of the
  list whose newline-join is the output. Containing something case-insensitively means
  that a substring of the line lower-cases to the keyword.
\<close>

theorem error_marking_line_included:
  assumes "0 \<le> w" and "i < length (splitlines text)"
      and "\<exists>s. sublist s (splitlines text ! i) \<and> str_lower s \<in> set error_keywords"
  shows "is_error_line (splitlines text ! i) \<and>
         (\<exists>pre post. extract_error_with_context text w =
              str_join [CHR 0x0A] (pre @ window_block (splitlines text) w i @ post))"
proof -
  define L where "L = splitlines text"
  have m: "is_error_line (L ! i)"
    using assms(3) by (simp add: is_error_line_iff L_def)
  have "extract_loop L w (enumerate 0 L) [] =
          concat (map (window_block L w) (filter (\<lambda>k. is_error_line (L ! k)) [0..<i]))
          @ window_block L w i
          @ concat (map (window_block L w) (filter (\<lambda>k. is_error_line (L ! k)) [Suc i..<length L]))"
  proof -
    have il: "i < length L" using assms(2) by (simp add: L_def)
    show ?thesis
      unfolding extract_blocks [OF assms(1)]
        filter_upt_split [of i "length L" "\<lambda>k. is_error_line (L ! k)", OF il m]
      by simp
  qed
  then have "\<exists>pre post. extract_error_with_context text w =
              str_join [CHR 0x0A] (pre @ window_block L w i @ post)"
    unfolding extract_error_with_context_def Let_def L_def by metis
  with m show ?thesis by (simp add: L_def)
qed

theorem error_marking_line_included_witness:
  \<open>is_error_line (splitlines (''ok'' @ [CHR 0x0A] @ ''{"@LEVEL":"Error"}'' @ [CHR 0x0A] @ ''next'') ! 1) \<and>
   (\<exists>pre post. extract_error_with_context (''ok'' @ [CHR 0x0A] @ ''{"@LEVEL":"Error"}'' @ [CHR 0x0A] @ ''next'') 5 =
        str_join [CHR 0x0A] (pre @ [''{"@LEVEL":"Error"}'', ''next'', []] @ post))\<close>
proof -
  define logtext where \<open>logtext = ''ok'' @ [CHR 0x0A] @ ''{"@LEVEL":"Error"}'' @ [CHR 0x0A] @ ''next''\<close>
  have h1: "(0::int) \<le> 5" by simp
  have L: \<open>splitlines logtext = [''ok'', ''{"@LEVEL":"Error"}'', ''next'']\<close>
    unfolding logtext_def by code_simp
  have h2: "1 < length (splitlines logtext)" by (simp add: L)
  have s1: \<open>sublist ''"@LEVEL":"Error"'' (splitlines logtext ! 1)\<close>
    unfolding L by code_simp
  have s2: \<open>str_lower ''"@LEVEL":"Error"'' \<in> set error_keywords\<close>
    by code_simp
  have h3: "\<exists>s. sublist s (splitlines logtext ! 1) \<and> str_lower s \<in> set error_keywords"
    using s1 s2 by blast
  have b: \<open>window_block (splitlines logtext) 5 1 = [''{"@LEVEL":"Error"}'', ''next'', []]\<close>
    unfolding L by code_simp
  show ?thesis
    using error_marking_line_included [OF h1 h2 h3] unfolding b unfolding logtext_def .
qed

text \<open>
  The marker without the \<open>@\<close>, as claim C4 writes it, does not mark a line: a log whose
  only line carries \<open>"level":"error"\<close> yields the empty output.
\<close>

theorem unprefixed_level_marker_counterexample:
  \<open>sublist ''"level":"error"'' (str_lower ''{"level":"error","msg":"x"}'')
   \<and> \<not> is_error_line ''{"level":"error","msg":"x"}''
   \<and> extract_error_with_context ''{"level":"error","msg":"x"}'' 5 = []\<close>
  by code_simp

section \<open>The Identifier Resolver's positions\<close>

lemma resolver_parts:
  "get_workspace_id_from_url url =
     (let parts = split_on CHR ''/'' url; n = length parts in
      if ''runs'' \<in> set parts then
        (if 5 \<le> n then Inr (parts ! (n - 3), parts ! (n - 5), Some (parts ! (n - 1)))
         else Inl IndexError)
      else
        (if 3 \<le> n then Inr (parts ! (n - 1), parts ! (n - 3), None)
         else Inl IndexError))"
proof -
  define parts where "parts = split_on CHR ''/'' url"
  have i1: "py_index parts (- 1) = Inr (parts ! (length parts - 1))"
    using py_index_from_end [of 1 parts] split_on_nonempty [of "CHR ''/''" url]
    by (cases parts) (simp_all add: parts_def)
  have i3: "py_index parts (- 3) =
      (if 3 \<le> length parts then Inr (parts ! (length parts - 3)) else Inl IndexError)"
    using py_index_from_end [of 3 parts] py_index_too_short [of parts 3] by auto
  have i5: "py_index parts (- 5) =
      (if 5 \<le> length parts then Inr (parts ! (length parts - 5)) else Inl IndexError)"
    using py_index_from_end [of 5 parts] py_index_too_short [of parts 5] by auto
  show ?thesis
    unfolding get_workspace_id_from_url_def parts_def [symmetric] Let_def i1 i3 i5
    by (simp add: bindE_simps)
qed

lemma run_scoped_parts:
  assumes "CHR ''/'' \<notin> set org" "CHR ''/'' \<notin> set ws" "CHR ''/'' \<notin> set run"
  shows "split_on CHR ''/'' (pre @ ''/organizations/'' @ org @ ''/workspaces/'' @ ws @ ''/runs/'' @ run)
         = split_on CHR ''/'' pre @ [''organizations'', org, ''workspaces'', ws, ''runs'', run]"
proof -
  have "pre @ ''/organizations/'' @ org @ ''/workspaces/'' @ ws @ ''/runs/'' @ run
        = pre @ CHR ''/'' # (''organizations'' @ CHR ''/'' # (org @ CHR ''/'' #
            (''workspaces'' @ CHR ''/'' # (ws @ CHR ''/'' # (''runs'' @ CHR ''/'' # run)))))"
    by simp
  then show ?thesis
    using assms by (simp only: split_on_append) (simp add: split_on_no_sep)
qed

lemma workspace_scoped_parts:
  assumes "CHR ''/'' \<notin> set org" "CHR ''/'' \<notin> set ws"
  shows "split_on CHR ''/'' (pre @ ''/organizations/'' @ org @ ''/workspaces/'' @ ws)
         = split_on CHR ''/'' pre @ [''organizations'', org, ''workspaces'', ws]"
proof -
  have "pre @ ''/organizations/'' @ org @ ''/workspaces/'' @ ws
        = pre @ CHR ''/'' # (''organizations'' @ CHR ''/'' # (org @ CHR ''/'' #
            (''workspaces'' @ CHR ''/'' # ws)))"
    by simp
  then show ?thesis
    using assms by (simp only: split_on_append) (simp add: split_on_no_sep)
qed

text \<open>
  Claim C5. With \<open>parts\<close> the segments of the URL between slashes: when \<open>runs\<close> is one of
  them, the resolver returns the third-from-last segment as workspace, the fifth-from-last
  as organization and the last as run id; otherwise the last segment as workspace, the
  third-from-last as organization and no run id. It raises \<open>IndexError\<close> when the URL has
  fewer than five (respectively three) segments. In particular a URL
  \<open>.../organizations/ORG/workspaces/WS/runs/RUN\<close> resolves to \<open>(WS, ORG, RUN)\<close>, and a URL
  \<open>.../organizations/ORG/workspaces/WS\<close> none of whose segments is \<open>runs\<close> resolves to
  \<open>(WS, ORG, None)\<close>; \<open>ORG\<close>, \<open>WS\<close> and \<open>RUN\<close> are segments, so they hold no slash.
\<close>

theorem get_workspace_id_from_url_positions:
  "get_workspace_id_from_url url =
     (let parts = split_on CHR ''/'' url; n = length parts in
      if ''runs'' \<in> set parts then
        (if 5 \<le> n then Inr (parts ! (n - 3), parts ! (n - 5), Some (parts ! (n - 1)))
         else Inl IndexError)
      else
        (if 3 \<le> n then Inr (parts ! (n - 1), parts ! (n - 3), None)
         else Inl IndexError))
   \<and> (CHR ''/'' \<notin> set org \<and> CHR ''/'' \<notin> set ws \<and> CHR ''/'' \<notin> set run \<longrightarrow>
        get_workspace_id_from_url
          (pre @ ''/organizations/'' @ org @ ''/workspaces/'' @ ws @ ''/runs/'' @ run)
        = Inr (ws, org, Some run))
   \<and> (CHR ''/'' \<notin> set org \<and> CHR ''/'' \<notin> set ws \<and> org \<noteq> ''runs'' \<and> ws \<noteq> ''runs''
        \<and> ''runs'' \<notin> set (split_on CHR ''/'' pre) \<longrightarrow>
        get_workspace_id_from_url (pre @ ''/organizations/'' @ org @ ''/workspaces/'' @ ws)
        = Inr (ws, org, None))"
proof (intro conjI impI)
  show "get_workspace_id_from_url url =
     (let parts = split_on CHR ''/'' url; n = length parts in
      if ''runs'' \<in> set parts then
        (if 5 \<le> n then Inr (parts ! (n - 3), parts ! (n - 5), Some (parts ! (n - 1)))
         else Inl IndexError)
      else
        (if 3 \<le> n then Inr (parts ! (n - 1), parts ! (n - 3), None)
         else Inl IndexError))"
    by (rule resolver_parts)
next
  assume "CHR ''/'' \<notin> set org \<and> CHR ''/'' \<notin> set ws \<and> CHR ''/'' \<notin> set run"
  then have p: "split_on CHR ''/'' (pre @ ''/organizations/'' @ org @ ''/workspaces/'' @ ws @ ''/runs/'' @ run)
         = split_on CHR ''/'' pre @ [''organizations'', org, ''workspaces'', ws, ''runs'', run]"
    by (intro run_scoped_parts) blast+
  show "get_workspace_id_from_url
          (pre @ ''/organizations/'' @ org @ ''/workspaces/'' @ ws @ ''/runs/'' @ run)
        = Inr (ws, org, Some run)"
    unfolding resolver_parts p by (simp add: Let_def nth_append)
next
  assume a: "CHR ''/'' \<notin> set org \<and> CHR ''/'' \<notin> set ws \<and> org \<noteq> ''runs'' \<and> ws \<noteq> ''runs''
        \<and> ''runs'' \<notin> set (split_on CHR ''/'' pre)"
  then have p: "split_on CHR ''/'' (pre @ ''/organizations/'' @ org @ ''/workspaces/'' @ ws)
         = split_on CHR ''/'' pre @ [''organizations'', org, ''workspaces'', ws]"
    by (intro workspace_scoped_parts) blast+
  show "get_workspace_id_from_url (pre @ ''/organizations/'' @ org @ ''/workspaces/'' @ ws)
        = Inr (ws, org, None)"
    unfolding resolver_parts p using a by (auto simp: Let_def nth_append)
qed

theorem get_workspace_id_from_url_positions_witness:
  "get_workspace_id_from_url ''https://app.terraform.io/app/organizations/acme/workspaces/net/runs/run-9''
     = Inr (''net'', ''acme'', Some ''run-9'')
   \<and> get_workspace_id_from_url ''https://app.terraform.io/app/organizations/acme/workspaces/net''
     = Inr (''net'', ''acme'', None)"
proof -
  have s: "CHR ''/'' \<notin> set ''acme'' \<and> CHR ''/'' \<notin> set ''net'' \<and> CHR ''/'' \<notin> set ''run-9''"
    by simp
  have p: "split_on CHR ''/'' ''https://app.terraform.io/app'' = [''https:'', [], ''app.terraform.io'', ''app'']"
    by code_simp
  have w: "CHR ''/'' \<notin> set ''acme'' \<and> CHR ''/'' \<notin> set ''net'' \<and> ''acme'' \<noteq> ''runs''
      \<and> ''net'' \<noteq> ''runs'' \<and> ''runs'' \<notin> set (split_on CHR ''/'' ''https://app.terraform.io/app'')"
    unfolding p by simp
  note t = get_workspace_id_from_url_positions
      [of _ "''acme''" "''net''" "''run-9''" "''https://app.terraform.io/app''"]
  have a: "get_workspace_id_from_url
      (''https://app.terraform.io/app'' @ ''/organizations/'' @ ''acme'' @ ''/workspaces/'' @ ''net'' @ ''/runs/'' @ ''run-9'')
      = Inr (''net'', ''acme'', Some ''run-9'')"
    using t s by blast
  have b: "get_workspace_id_from_url
      (''https://app.terraform.io/app'' @ ''/organizations/'' @ ''acme'' @ ''/workspaces/'' @ ''net'')
      = Inr (''net'', ''acme'', None)"
    using t w by blast
  show ?thesis using a b by simp
qed

lemma length_split_on: "length (split_on sep s) = Suc (length (filter (\<lambda>c. c = sep) s))"
proof (induction s)
  case Nil show ?case by simp
next
  case (Cons c s)
  obtain p ps where ps: "split_on sep s = p # ps"
    using split_on_nonempty [of sep s] by (cases "split_on sep s") auto
  show ?case using Cons ps by auto
qed

lemma last_split_on: "(last (split_on sep s) = []) = (s = [] \<or> last s = sep)"
proof (induction s)
  case Nil show ?case by simp
next
  case (Cons c s)
  obtain p ps where ps: "split_on sep s = p # ps"
    using split_on_nonempty [of sep s] by (cases "split_on sep s") auto
  show ?case
  proof (cases "c = sep")
    case True
    then show ?thesis using Cons ps by simp
  next
    case False
    show ?thesis
    proof (cases "ps = []")
      case True
      then have "filter (\<lambda>c. c = sep) s = []"
        using length_split_on [of sep s] ps by simp
      then have "sep \<notin> set s" by (auto simp: filter_empty_conv)
      then have "s \<noteq> [] \<longrightarrow> last s \<noteq> sep" using last_in_set by blast
      then show ?thesis using False True ps by auto
    next
      case nonempty: False
      then have "s \<noteq> []" using ps by (cases s) auto
      then show ?thesis using False nonempty ps Cons by simp
    qed
  qed
qed

text \<open>
  Claim C8, as amended. When the resolver returns with no run id, the workspace name is
  non-empty exactly when the URL does not end with a slash, and the organization name is
  non-empty exactly when the third-from-last segment of the URL is.
\<close>

theorem workspace_scoped_names_nonempty:
  assumes "get_workspace_id_from_url url = Inr (ws, org, None)"
  shows "(ws \<noteq> [] \<longleftrightarrow> last url \<noteq> CHR ''/'')
       \<and> (org \<noteq> [] \<longleftrightarrow>
            split_on CHR ''/'' url ! (length (split_on CHR ''/'' url) - 3) \<noteq> [])"
proof -
  define parts where "parts = split_on CHR ''/'' url"
  have r: "''runs'' \<notin> set parts \<and> 3 \<le> length parts
           \<and> ws = parts ! (length parts - 1) \<and> org = parts ! (length parts - 3)"
    using assms unfolding resolver_parts parts_def [symmetric] Let_def
    by (auto split: if_splits)
  have ne: "url \<noteq> []"
    using r by (auto simp: parts_def)
  have "ws = last parts"
    using r split_on_nonempty [of "CHR ''/''" url] by (simp add: parts_def last_conv_nth)
  then have "(ws = []) = (last url = CHR ''/'')"
    using last_split_on [of "CHR ''/''" url] ne by (simp add: parts_def)
  then show ?thesis using r by (simp add: parts_def)
qed

theorem workspace_scoped_names_nonempty_witness:
  "(''net'' \<noteq> [] \<longleftrightarrow> last ''app/organizations/acme/workspaces/net'' \<noteq> CHR ''/'')
   \<and> (''acme'' \<noteq> [] \<longleftrightarrow>
        split_on CHR ''/'' ''app/organizations/acme/workspaces/net''
          ! (length (split_on CHR ''/'' ''app/organizations/acme/workspaces/net'') - 3) \<noteq> [])"
proof -
  have h: "get_workspace_id_from_url ''app/organizations/acme/workspaces/net''
           = Inr (''net'', ''acme'', None)"
    by code_simp
  show ?thesis by (rule workspace_scoped_names_nonempty [OF h])
qed

text \<open>
  The resolver does no validation: on a workspace URL with a trailing slash it returns,
  with no run id, the empty string as workspace name.
\<close>

theorem empty_workspace_counterexample:
  "get_workspace_id_from_url ''https://app.terraform.io/app/organizations/acme/workspaces/net/''
     = Inr ([], ''workspaces'', None)"
  by code_simp

section \<open>Facts about computations with effects\<close>

lemma io_bind_Inr: "m t = (Inr v, t') \<Longrightarrow> io_bind m f t = f v t'"
  by (simp add: io_bind_def)

lemma io_bind_Inl: "m t = (Inl e, t') \<Longrightarrow> io_bind m f t = (Inl e, t')"
  by (simp add: io_bind_def)

lemma io_bind_lift_Inr: "io_bind (lift (Inr v)) f = f v"
  by (simp add: io_bind_def lift_def)

lemma io_bind_return: "io_bind (io_return v) f = f v"
  by (simp add: io_bind_def io_return_def)

lemma requests_get_ok:
  "http_ok env t req r \<Longrightarrow>
     io_bind (requests_get env req) (\<lambda>resp. io_bind (raise_for_status resp) (\<lambda>_. f resp)) t
     = f r (t @ [HttpGet req])"
  by (auto simp: http_ok_def io_bind_def requests_get_def raise_for_status_def io_return_def)

lemma requests_get_fails:
  "http_fails env t req \<Longrightarrow>
     \<exists>e. io_bind (requests_get env req) (\<lambda>resp. io_bind (raise_for_status resp) (\<lambda>_. f resp)) t
         = (Inl e, t @ [HttpGet req])"
  by (auto simp: http_fails_def io_bind_def requests_get_def raise_for_status_def io_return_def
        io_raise_def split: sum.splits)

lemma logs_error_lines_ok:
  "http_ok env t (Request (LogUrl url) None) log \<Longrightarrow>
     logs_error_lines env url t =
       (Inr (extract_error_with_context (body_text log) 5), t @ [HttpGet (Request (LogUrl url) None)])"
  unfolding logs_error_lines_def by (simp add: requests_get_ok io_return_def)

lemma logs_error_lines_fails:
  "http_fails env t (Request (LogUrl url) None) \<Longrightarrow>
     \<exists>e. logs_error_lines env url t = (Inl e, t @ [HttpGet (Request (LogUrl url) None)])"
  unfolding logs_error_lines_def by (rule requests_get_fails)

lemma plan_errors_yields:
  assumes "sub_resource_yields env tok run ''plan'' PlanById t lines t'"
  shows "plan_errors env tok run t =
           (Inr (if lines \<noteq> [] then Some (''Plan Error:'' @ [CHR 0x0A] @ lines) else None), t')"
proof -
  from assms obtain sub_id resp details url log where h:
    "has_relationship run ''plan'' = Inr True" "related_id run ''plan'' = Inr sub_id"
    "http_ok env t (Request (PlanById sub_id) (Some tok)) resp"
    "body_json resp = Inr details" "log_read_url_of details = Inr url" "truthy url"
    "http_ok env (t @ [HttpGet (Request (PlanById sub_id) (Some tok))]) (Request (LogUrl url) None) log"
    "lines = extract_error_with_context (body_text log) 5"
    "t' = t @ [HttpGet (Request (PlanById sub_id) (Some tok)), HttpGet (Request (LogUrl url) None)]"
    unfolding sub_resource_yields_def by blast
  show ?thesis
    unfolding plan_errors_def
    by (simp add: h io_bind_lift_Inr requests_get_ok [OF h(3)]
          io_bind_Inr [of "logs_error_lines env url", OF logs_error_lines_ok [OF h(7)]] io_return_def)
qed

lemma apply_errors_yields:
  assumes "sub_resource_yields env tok run ''apply'' ApplyById t lines t'"
  shows "apply_errors env tok run t =
           (Inr (if lines \<noteq> [] then Some (''Apply Error:'' @ [CHR 0x0A] @ lines) else None), t')"
proof -
  from assms obtain sub_id resp details url log where h:
    "has_relationship run ''apply'' = Inr True" "related_id run ''apply'' = Inr sub_id"
    "http_ok env t (Request (ApplyById sub_id) (Some tok)) resp"
    "body_json resp = Inr details" "log_read_url_of details = Inr url" "truthy url"
    "http_ok env (t @ [HttpGet (Request (ApplyById sub_id) (Some tok))]) (Request (LogUrl url) None) log"
    "lines = extract_error_with_context (body_text log) 5"
    "t' = t @ [HttpGet (Request (ApplyById sub_id) (Some tok)), HttpGet (Request (LogUrl url) None)]"
    unfolding sub_resource_yields_def by blast
  show ?thesis
    unfolding apply_errors_def
    by (simp add: h io_bind_lift_Inr requests_get_ok [OF h(3)]
          io_bind_Inr [of "logs_error_lines env url", OF logs_error_lines_ok [OF h(7)]] io_return_def)
qed

lemma plan_errors_without_log:
  assumes "sub_resource_without_log env tok run ''plan'' PlanById t t'"
  shows "plan_errors env tok run t = (Inr None, t')"
proof -
  from assms obtain sub_id resp details url where h:
    "has_relationship run ''plan'' = Inr True" "related_id run ''plan'' = Inr sub_id"
    "http_ok env t (Request (PlanById sub_id) (Some tok)) resp"
    "body_json resp = Inr details" "log_read_url_of details = Inr url" "truthy url = False"
    "t' = t @ [HttpGet (Request (PlanById sub_id) (Some tok))]"
    unfolding sub_resource_without_log_def by blast
  show ?thesis
    unfolding plan_errors_def
    by (simp add: h io_bind_lift_Inr requests_get_ok [OF h(3)] io_return_def)
qed

lemma plan_errors_nothing:
  assumes "plan_yields_nothing env tok run t t'"
  shows "plan_errors env tok run t = (Inr None, t')"
  using assms unfolding plan_yields_nothing_def
proof (elim disjE conjE)
  assume "has_relationship run ''plan'' = Inr False" "t' = t"
  then show ?thesis
    unfolding plan_errors_def by (simp add: io_bind_lift_Inr io_return_def)
next
  assume "sub_resource_without_log env tok run ''plan'' PlanById t t'"
  then show ?thesis by (rule plan_errors_without_log)
next
  assume "sub_resource_yields env tok run ''plan'' PlanById t [] t'"
  then show ?thesis using plan_errors_yields [of env tok run t "[]" t'] by simp
qed

lemma plan_errors_fails:
  assumes "plan_fetch_fails env tok run t t'"
  shows "\<exists>e. plan_errors env tok run t = (Inl e, t')"
proof -
  from assms obtain plan_id where h:
    "has_relationship run ''plan'' = Inr True" "related_id run ''plan'' = Inr plan_id"
    and alt: "(http_fails env t (Request (PlanById plan_id) (Some tok))
               \<and> t' = t @ [HttpGet (Request (PlanById plan_id) (Some tok))])
         \<or> (\<exists>resp details url.
               http_ok env t (Request (PlanById plan_id) (Some tok)) resp
             \<and> body_json resp = Inr details
             \<and> log_read_url_of details = Inr url \<and> truthy url
             \<and> http_fails env (t @ [HttpGet (Request (PlanById plan_id) (Some tok))])
                          (Request (LogUrl url) None)
             \<and> t' = t @ [HttpGet (Request (PlanById plan_id) (Some tok)),
                          HttpGet (Request (LogUrl url) None)])"
    unfolding plan_fetch_fails_def by blast
  from alt show ?thesis
  proof (elim disjE conjE exE)
    assume f: "http_fails env t (Request (PlanById plan_id) (Some tok))"
      and t': "t' = t @ [HttpGet (Request (PlanById plan_id) (Some tok))]"
    from requests_get_fails [OF f] show ?thesis
      unfolding plan_errors_def by (simp add: h t' io_bind_lift_Inr)
  next
    fix resp details url
    assume g: "http_ok env t (Request (PlanById plan_id) (Some tok)) resp"
      "body_json resp = Inr details" "log_read_url_of details = Inr url" "truthy url"
      and f: "http_fails env (t @ [HttpGet (Request (PlanById plan_id) (Some tok))])
                          (Request (LogUrl url) None)"
      and t': "t' = t @ [HttpGet (Request (PlanById plan_id) (Some tok)),
                          HttpGet (Request (LogUrl url) None)]"
    from logs_error_lines_fails [OF f] obtain e where
      e: "logs_error_lines env url (t @ [HttpGet (Request (PlanById plan_id) (Some tok))])
          = (Inl e, (t @ [HttpGet (Request (PlanById plan_id) (Some tok))]) @ [HttpGet (Request (LogUrl url) None)])"
      by blast
    have "plan_errors env tok run t = (Inl e, t')"
      unfolding plan_errors_def
      by (simp add: h g t' io_bind_lift_Inr requests_get_ok [OF g(1)]
            io_bind_Inl [of "logs_error_lines env url", OF e])
    then show ?thesis by blast
  qed
qed

lemma diagnose_run_not_errored:
  assumes "subscript run ''attributes'' = Inr attrs" "subscript attrs ''status'' = Inr st"
    "subscript run ''id'' = Inr i" "st \<noteq> JStr ''errored''"
  shows "diagnose_run env tok run t = (Inr no_errors_found, t)"
  unfolding diagnose_run_def by (simp add: assms io_bind_lift_Inr io_return_def)

lemma diagnose_run_errored:
  assumes "subscript run ''attributes'' = Inr attrs"
    "subscript attrs ''status'' = Inr (JStr ''errored'')" "subscript run ''id'' = Inr i"
  shows "diagnose_run env tok run t =
     (case plan_errors env tok run t of
        (Inl e, t') \<Rightarrow> (Inr no_errors_found, t')
      | (Inr (Some s), t') \<Rightarrow> (Inr s, t')
      | (Inr None, t') \<Rightarrow>
          (case apply_errors env tok run t' of
             (Inl e, t'') \<Rightarrow> (Inr no_errors_found, t'')
           | (Inr (Some s), t'') \<Rightarrow> (Inr s, t'')
           | (Inr None, t'') \<Rightarrow> (Inr no_errors_found, t'')))"
  unfolding diagnose_run_def
  by (simp add: assms io_bind_lift_Inr)
     (simp add: io_bind_def try_except_def io_return_def split: prod.splits sum.splits option.splits)

lemma diagnose_run_errored_returns:
  assumes "subscript run ''attributes'' = Inr attrs"
    "subscript attrs ''status'' = Inr (JStr ''errored'')" "subscript run ''id'' = Inr i"
  shows "\<exists>s t'. diagnose_run env tok run t = (Inr s, t')"
  unfolding diagnose_run_errored [OF assms]
  by (simp split: prod.splits sum.splits option.splits)

lemma get_latest_run_error_located:
  "locate_run env ws org tok rid t = (Inr (Inr run), t1) \<Longrightarrow>
     get_latest_run_error env ws org tok rid t = diagnose_run env tok run t1"
  unfolding get_latest_run_error_def by (simp add: io_bind_def)

lemma get_latest_run_error_no_runs:
  "locate_run env ws org tok rid t = (Inr (Inl s), t1) \<Longrightarrow>
     get_latest_run_error env ws org tok rid t = (Inr s, t1)"
  unfolding get_latest_run_error_def by (simp add: io_bind_def io_return_def)

section \<open>Which effects a computation adds\<close>

lemma only_effects_lift: "only_effects P (lift r)"
  by (simp add: only_effects_def lift_def)

lemma only_effects_return: "only_effects P (io_return v)"
  by (simp add: only_effects_def io_return_def)

lemma only_effects_raise: "only_effects P (io_raise e)"
  by (simp add: only_effects_def io_raise_def)

lemma only_effects_bind:
  assumes "only_effects P m" and "\<And>v. only_effects P (f v)"
  shows "only_effects P (io_bind m f)"
  unfolding only_effects_def
proof
  fix t
  from assms(1) obtain ext where m: "snd (m t) = t @ ext" "list_all P ext"
    unfolding only_effects_def by blast
  show "\<exists>ext. snd (io_bind m f t) = t @ ext \<and> list_all P ext"
  proof (cases "m t")
    case (Pair r t')
    with m have t': "t' = t @ ext" by simp
    show ?thesis
    proof (cases r)
      case (Inl e)
      then show ?thesis using Pair t' m(2) by (auto simp: io_bind_def)
    next
      case (Inr v)
      from assms(2) [of v] obtain ext' where f: "snd (f v t') = t' @ ext'" "list_all P ext'"
        unfolding only_effects_def by blast
      have "snd (io_bind m f t) = t @ (ext @ ext')"
        using Pair Inr f(1) t' by (simp add: io_bind_def)
      moreover have "list_all P (ext @ ext')" using m(2) f(2) by simp
      ultimately show ?thesis by blast
    qed
  qed
qed

lemma only_effects_try:
  assumes "only_effects P m" and "\<And>e. only_effects P (h e)"
  shows "only_effects P (try_except m h)"
  unfolding only_effects_def
proof
  fix t
  from assms(1) obtain ext where m: "snd (m t) = t @ ext" "list_all P ext"
    unfolding only_effects_def by blast
  show "\<exists>ext. snd (try_except m h t) = t @ ext \<and> list_all P ext"
  proof (cases "m t")
    case (Pair r t')
    with m have t': "t' = t @ ext" by simp
    show ?thesis
    proof (cases r)
      case (Inr v)
      then show ?thesis using Pair t' m(2) by (auto simp: try_except_def)
    next
      case (Inl e)
      from assms(2) [of e] obtain ext' where f: "snd (h e t') = t' @ ext'" "list_all P ext'"
        unfolding only_effects_def by blast
      have "snd (try_except m h t) = t @ (ext @ ext')"
        using Pair Inl f(1) t' by (simp add: try_except_def)
      moreover have "list_all P (ext @ ext')" using m(2) f(2) by simp
      ultimately show ?thesis by blast
    qed
  qed
qed

lemma only_effects_requests_get: "P (HttpGet req) \<Longrightarrow> only_effects P (requests_get env req)"
  by (simp add: only_effects_def requests_get_def)

lemma only_effects_raise_for_status: "only_effects P (raise_for_status r)"
  by (simp add: raise_for_status_def only_effects_raise only_effects_return)

lemmas only_effects_intros =
  only_effects_bind only_effects_lift only_effects_return only_effects_raise
  only_effects_raise_for_status only_effects_requests_get

lemma only_effects_if:
  "only_effects P a \<Longrightarrow> only_effects P b \<Longrightarrow> only_effects P (if c then a else b)"
  by simp

lemma only_effects_option:
  "only_effects P a \<Longrightarrow> (\<And>x. only_effects P (b x)) \<Longrightarrow>
     only_effects P (case v of None \<Rightarrow> a | Some x \<Rightarrow> b x)"
  by (cases v) simp_all

lemma only_effects_sum:
  "(\<And>x. only_effects P (a x)) \<Longrightarrow> (\<And>x. only_effects P (b x)) \<Longrightarrow>
     only_effects P (case v of Inl x \<Rightarrow> a x | Inr x \<Rightarrow> b x)"
  by (cases v) simp_all

lemma locate_run_effects:
  "only_effects (\<lambda>e. \<not> sub_resource_fetch e) (locate_run env ws org tok rid)"
  unfolding locate_run_def latest_run_of_workspace_def fetch_run_by_id_def
    fetch_workspace_id_def fetch_runs_data_def
  by (intro only_effects_intros only_effects_if only_effects_option) simp_all

section \<open>The sample Terraform Cloud, evaluated\<close>

lemma sample_locate:
  "locate_run (sample_env st c pl al) ws org tok (Some ''run-1'') [] =
     (Inr (Inr (sample_run st)), [HttpGet (Request (RunById ''run-1'') (Some tok))])"
  by (simp add: locate_run_def fetch_run_by_id_def sample_env_def sample_http_def ok_json_def
        io_bind_def requests_get_def raise_for_status_def io_return_def lift_def)

lemma sample_no_runs:
  "locate_run (sample_env st c pl al) ws org tok None [] =
     (Inr (Inl ''No runs found for the workspace.''),
      [HttpGet (Request (WorkspaceByName org ws) (Some tok)),
       HttpGet (Request (RunsOfWorkspace (JStr ''ws-1'')) (Some tok))])"
  by (simp add: locate_run_def latest_run_of_workspace_def fetch_workspace_id_def
        fetch_runs_data_def sample_env_def sample_http_def ok_json_def
        io_bind_def requests_get_def raise_for_status_def io_return_def lift_def)

lemma sample_run_fields:
  "subscript (sample_run st) ''attributes'' = Inr (JObj [(''status'', JStr st)])"
  "subscript (JObj [(''status'', JStr st)]) ''status'' = Inr (JStr st)"
  "subscript (sample_run st) ''id'' = Inr (JStr ''run-1'')"
  "has_relationship (sample_run st) ''plan'' = Inr True"
  "has_relationship (sample_run st) ''apply'' = Inr True"
  "related_id (sample_run st) ''plan'' = Inr (JStr ''plan-1'')"
  "related_id (sample_run st) ''apply'' = Inr (JStr ''apply-1'')"
  by (simp_all add: sample_run_def has_relationship_def related_id_def bindE_def)

lemma sample_log_url: "log_read_url_of (log_details url) = Inr (JStr url)"
  by (simp add: log_read_url_of_def log_details_def bindE_def)

lemma sample_plan_yields:
  assumes "c < 400"
  shows "sub_resource_yields (sample_env st c pl al) tok (sample_run st) ''plan'' PlanById t
           (extract_error_with_context pl 5)
           (t @ [HttpGet (Request (PlanById (JStr ''plan-1'')) (Some tok)),
                 HttpGet (Request (LogUrl (JStr ''https://logs/plan'')) None)])"
  unfolding sub_resource_yields_def
  apply (rule exI [of _ "JStr ''plan-1''"])
  apply (rule exI [of _ "\<lparr>status_code = c, body_text = [], body_json = Inr (log_details ''https://logs/plan'')\<rparr>"])
  apply (rule exI [of _ "log_details ''https://logs/plan''"])
  apply (rule exI [of _ "JStr ''https://logs/plan''"])
  apply (rule exI [of _ "\<lparr>status_code = 200, body_text = pl, body_json = Inl ValueError\<rparr>"])
  using assms
  apply (simp add: sample_run_fields sample_log_url http_ok_def sample_env_def sample_http_def)
  done

lemma sample_apply_yields:
  "sub_resource_yields (sample_env st c pl al) tok (sample_run st) ''apply'' ApplyById t
           (extract_error_with_context al 5)
           (t @ [HttpGet (Request (ApplyById (JStr ''apply-1'')) (Some tok)),
                 HttpGet (Request (LogUrl (JStr ''https://logs/apply'')) None)])"
  unfolding sub_resource_yields_def
  apply (rule exI [of _ "JStr ''apply-1''"])
  apply (rule exI [of _ "ok_json (log_details ''https://logs/apply'')"])
  apply (rule exI [of _ "log_details ''https://logs/apply''"])
  apply (rule exI [of _ "JStr ''https://logs/apply''"])
  apply (rule exI [of _ "\<lparr>status_code = 200, body_text = al, body_json = Inl ValueError\<rparr>"])
  apply (simp add: sample_run_fields sample_log_url http_ok_def sample_env_def sample_http_def ok_json_def)
  done

lemma sample_plan_fails:
  assumes "400 \<le> c" "c < 600"
  shows "plan_fetch_fails (sample_env st c pl al) tok (sample_run st) t
           (t @ [HttpGet (Request (PlanById (JStr ''plan-1'')) (Some tok))])"
  unfolding plan_fetch_fails_def
  apply (rule exI [of _ "JStr ''plan-1''"])
  using assms
  apply (simp add: sample_run_fields http_fails_def sample_env_def sample_http_def)
  done

lemma sample_extractions:
  "extract_error_with_context ''Error: bad plan'' 5 = ''Error: bad plan'' @ [CHR 0x0A]"
  "extract_error_with_context ''Error: bad apply'' 5 = ''Error: bad apply'' @ [CHR 0x0A]"
  "extract_error_with_context ''Plan: 1 to add'' 5 = []"
  by code_simp+

section \<open>The Run Diagnoser on an errored run\<close>

text \<open>
  Claim C1. For a located run whose status is \<open>errored\<close>: when the plan's log is extracted
  to non-empty lines, the result is \<open>Plan Error:\<close>, a newline and the lines, and the only
  effects after locating the run are the two GETs of the plan and of its log, so the apply
  and its log are not fetched. When the plan yields nothing and the apply's log is
  extracted to non-empty lines, the result is \<open>Apply Error:\<close>, a newline and the lines.
\<close>

theorem plan_checked_before_apply:
  assumes "locate_run env ws org tok rid t = (Inr (Inr run), t1)"
    and "subscript run ''attributes'' = Inr attrs"
    and "subscript attrs ''status'' = Inr (JStr ''errored'')"
    and "subscript run ''id'' = Inr i"
  shows "(sub_resource_yields env tok run ''plan'' PlanById t1 lines t2 \<and> lines \<noteq> [] \<longrightarrow>
            get_latest_run_error env ws org tok rid t
              = (Inr (''Plan Error:'' @ [CHR 0x0A] @ lines), t2)
            \<and> (\<exists>plan_id url. t2 = t1 @ [HttpGet (Request (PlanById plan_id) (Some tok)),
                                          HttpGet (Request (LogUrl url) None)]))
       \<and> (plan_yields_nothing env tok run t1 t2
            \<and> sub_resource_yields env tok run ''apply'' ApplyById t2 lines t3 \<and> lines \<noteq> [] \<longrightarrow>
            get_latest_run_error env ws org tok rid t
              = (Inr (''Apply Error:'' @ [CHR 0x0A] @ lines), t3))"
proof (intro conjI impI)
  assume a: "sub_resource_yields env tok run ''plan'' PlanById t1 lines t2 \<and> lines \<noteq> []"
  then have "plan_errors env tok run t1 = (Inr (Some (''Plan Error:'' @ [CHR 0x0A] @ lines)), t2)"
    using plan_errors_yields [of env tok run t1 lines t2] by simp
  then show "get_latest_run_error env ws org tok rid t
              = (Inr (''Plan Error:'' @ [CHR 0x0A] @ lines), t2)"
    unfolding get_latest_run_error_located [OF assms(1)] diagnose_run_errored [OF assms(2-4)]
    by simp
  from a show "\<exists>plan_id url. t2 = t1 @ [HttpGet (Request (PlanById plan_id) (Some tok)),
                                          HttpGet (Request (LogUrl url) None)]"
    unfolding sub_resource_yields_def by blast
next
  assume b: "plan_yields_nothing env tok run t1 t2
            \<and> sub_resource_yields env tok run ''apply'' ApplyById t2 lines t3 \<and> lines \<noteq> []"
  then have p: "plan_errors env tok run t1 = (Inr None, t2)"
    by (simp add: plan_errors_nothing)
  from b have "apply_errors env tok run t2 = (Inr (Some (''Apply Error:'' @ [CHR 0x0A] @ lines)), t3)"
    using apply_errors_yields [of env tok run t2 lines t3] by simp
  with p show "get_latest_run_error env ws org tok rid t
              = (Inr (''Apply Error:'' @ [CHR 0x0A] @ lines), t3)"
    unfolding get_latest_run_error_located [OF assms(1)] diagnose_run_errored [OF assms(2-4)]
    by simp
qed

theorem plan_checked_before_apply_witness:
  "get_latest_run_error (sample_env ''errored'' 200 ''Error: bad plan'' ''Error: bad apply'')
       ''net'' ''acme'' (JStr ''tok'') (Some ''run-1'') []
     = (Inr (''Plan Error:'' @ [CHR 0x0A] @ ''Error: bad plan'' @ [CHR 0x0A]),
        [HttpGet (Request (RunById ''run-1'') (Some (JStr ''tok''))),
         HttpGet (Request (PlanById (JStr ''plan-1'')) (Some (JStr ''tok''))),
         HttpGet (Request (LogUrl (JStr ''https://logs/plan'')) None)])
   \<and> get_latest_run_error (sample_env ''errored'' 200 ''Plan: 1 to add'' ''Error: bad apply'')
       ''net'' ''acme'' (JStr ''tok'') (Some ''run-1'') []
     = (Inr (''Apply Error:'' @ [CHR 0x0A] @ ''Error: bad apply'' @ [CHR 0x0A]),
        [HttpGet (Request (RunById ''run-1'') (Some (JStr ''tok''))),
         HttpGet (Request (PlanById (JStr ''plan-1'')) (Some (JStr ''tok''))),
         HttpGet (Request (LogUrl (JStr ''https://logs/plan'')) None),
         HttpGet (Request (ApplyById (JStr ''apply-1'')) (Some (JStr ''tok''))),
         HttpGet (Request (LogUrl (JStr ''https://logs/apply'')) None)])"
proof -
  let ?tok = "JStr ''tok''"
  let ?t1 = "[HttpGet (Request (RunById ''run-1'') (Some ?tok))]"
  let ?e1 = "sample_env ''errored'' 200 ''Error: bad plan'' ''Error: bad apply''"
  let ?e2 = "sample_env ''errored'' 200 ''Plan: 1 to add'' ''Error: bad apply''"
  have c: "(200::nat) < 400" by simp
  have y1: "sub_resource_yields ?e1 ?tok (sample_run ''errored'') ''plan'' PlanById ?t1
              (''Error: bad plan'' @ [CHR 0x0A])
              (?t1 @ [HttpGet (Request (PlanById (JStr ''plan-1'')) (Some ?tok)),
                      HttpGet (Request (LogUrl (JStr ''https://logs/plan'')) None)])"
    using sample_plan_yields [OF c, of "''errored''" "''Error: bad plan''" "''Error: bad apply''" ?tok ?t1]
    by (simp only: sample_extractions)
  have n2: "plan_yields_nothing ?e2 ?tok (sample_run ''errored'') ?t1
              (?t1 @ [HttpGet (Request (PlanById (JStr ''plan-1'')) (Some ?tok)),
                      HttpGet (Request (LogUrl (JStr ''https://logs/plan'')) None)])"
    unfolding plan_yields_nothing_def
    using sample_plan_yields [OF c, of "''errored''" "''Plan: 1 to add''" "''Error: bad apply''" ?tok ?t1]
    by (simp only: sample_extractions) blast
  have y2: "sub_resource_yields ?e2 ?tok (sample_run ''errored'') ''apply'' ApplyById
              (?t1 @ [HttpGet (Request (PlanById (JStr ''plan-1'')) (Some ?tok)),
                      HttpGet (Request (LogUrl (JStr ''https://logs/plan'')) None)])
              (''Error: bad apply'' @ [CHR 0x0A])
              ((?t1 @ [HttpGet (Request (PlanById (JStr ''plan-1'')) (Some ?tok)),
                      HttpGet (Request (LogUrl (JStr ''https://logs/plan'')) None)])
                @ [HttpGet (Request (ApplyById (JStr ''apply-1'')) (Some ?tok)),
                   HttpGet (Request (LogUrl (JStr ''https://logs/apply'')) None)])"
    using sample_apply_yields [of "''errored''" 200 "''Plan: 1 to add''" "''Error: bad apply''" ?tok]
    by (simp only: sample_extractions)
  note a = plan_checked_before_apply
      [OF sample_locate sample_run_fields(1) sample_run_fields(2) sample_run_fields(3),
       THEN conjunct1, THEN mp, OF conjI [OF y1], THEN conjunct1]
  note b = plan_checked_before_apply
      [OF sample_locate sample_run_fields(1) sample_run_fields(2) sample_run_fields(3),
       THEN conjunct2, THEN mp, OF conjI [OF n2 conjI [OF y2]]]
  have "get_latest_run_error ?e1 ''net'' ''acme'' ?tok (Some ''run-1'') []
     = (Inr (''Plan Error:'' @ [CHR 0x0A] @ ''Error: bad plan'' @ [CHR 0x0A]),
        ?t1 @ [HttpGet (Request (PlanById (JStr ''plan-1'')) (Some ?tok)),
                      HttpGet (Request (LogUrl (JStr ''https://logs/plan'')) None)])"
    by (rule a) simp
  moreover have "get_latest_run_error ?e2 ''net'' ''acme'' ?tok (Some ''run-1'') []
     = (Inr (''Apply Error:'' @ [CHR 0x0A] @ ''Error: bad apply'' @ [CHR 0x0A]),
        (?t1 @ [HttpGet (Request (PlanById (JStr ''plan-1'')) (Some ?tok)),
                      HttpGet (Request (LogUrl (JStr ''https://logs/plan'')) None)])
                @ [HttpGet (Request (ApplyById (JStr ''apply-1'')) (Some ?tok)),
                   HttpGet (Request (LogUrl (JStr ''https://logs/apply'')) None)])"
    by (rule b) simp
  ultimately show ?thesis by simp
qed


text \<open>
  Claim C2, as amended. For a located run whose status is \<open>errored\<close> the Run Diagnoser
  never raises. A failure of the GET of the plan's details or of the plan's log is caught
  by the one \<open>try\<close> that holds both checks: the result is the "no errors found" sentinel,
  and the effects end with the failed plan-side fetch, so the apply is not fetched.
\<close>

theorem plan_fetch_failure_is_swallowed:
  assumes "locate_run env ws org tok rid t = (Inr (Inr run), t1)"
    and "subscript run ''attributes'' = Inr attrs"
    and "subscript attrs ''status'' = Inr (JStr ''errored'')"
    and "subscript run ''id'' = Inr i"
  shows "(\<exists>s t'. get_latest_run_error env ws org tok rid t = (Inr s, t'))
       \<and> (plan_fetch_fails env tok run t1 t2 \<longrightarrow>
            get_latest_run_error env ws org tok rid t = (Inr no_errors_found, t2))"
proof (intro conjI impI)
  show "\<exists>s t'. get_latest_run_error env ws org tok rid t = (Inr s, t')"
    unfolding get_latest_run_error_located [OF assms(1)]
    by (rule diagnose_run_errored_returns [OF assms(2-4)])
next
  assume "plan_fetch_fails env tok run t1 t2"
  then obtain e where "plan_errors env tok run t1 = (Inl e, t2)"
    using plan_errors_fails by blast
  then show "get_latest_run_error env ws org tok rid t = (Inr no_errors_found, t2)"
    unfolding get_latest_run_error_located [OF assms(1)] diagnose_run_errored [OF assms(2-4)]
    by simp
qed

theorem plan_fetch_failure_is_swallowed_witness:
  "(\<exists>s t'. get_latest_run_error (sample_env ''errored'' 503 [] ''Error: bad apply'')
              ''net'' ''acme'' (JStr ''tok'') (Some ''run-1'') [] = (Inr s, t'))
   \<and> get_latest_run_error (sample_env ''errored'' 503 [] ''Error: bad apply'')
        ''net'' ''acme'' (JStr ''tok'') (Some ''run-1'') []
      = (Inr no_errors_found,
         [HttpGet (Request (RunById ''run-1'') (Some (JStr ''tok''))),
          HttpGet (Request (PlanById (JStr ''plan-1'')) (Some (JStr ''tok'')))])"
proof -
  have c: "(400::nat) \<le> 503" "(503::nat) < 600" by simp_all
  note f = sample_plan_fails [OF c, of "''errored''" "[]" "''Error: bad apply''" "JStr ''tok''"
      "[HttpGet (Request (RunById ''run-1'') (Some (JStr ''tok'')))]"]
  note th = plan_fetch_failure_is_swallowed
      [OF sample_locate sample_run_fields(1) sample_run_fields(2) sample_run_fields(3)]
  from th [THEN conjunct2, THEN mp, OF f] th [THEN conjunct1]
  show ?thesis by simp
qed

text \<open>
  On the sample run with a plan endpoint that answers 500 and an apply whose log holds an
  error line, the diagnosis is the sentinel and the apply is never fetched, although the
  apply check started after the plan failure would have returned the apply's error.
\<close>

theorem plan_failure_hides_apply_error_counterexample:
  "get_latest_run_error (sample_env ''errored'' 500 [] ''Error: bad apply'')
        ''net'' ''acme'' (JStr ''tok'') (Some ''run-1'') []
      = (Inr ''No errors found in the latest run's plan or apply output.'',
         [HttpGet (Request (RunById ''run-1'') (Some (JStr ''tok''))),
          HttpGet (Request (PlanById (JStr ''plan-1'')) (Some (JStr ''tok'')))])
   \<and> fst (apply_errors (sample_env ''errored'' 500 [] ''Error: bad apply'') (JStr ''tok'')
           (sample_run ''errored'')
           [HttpGet (Request (RunById ''run-1'') (Some (JStr ''tok''))),
            HttpGet (Request (PlanById (JStr ''plan-1'')) (Some (JStr ''tok'')))])
      = Inr (Some (''Apply Error:'' @ [CHR 0x0A] @ ''Error: bad apply'' @ [CHR 0x0A]))"
proof -
  have c: "(400::nat) \<le> 500" "(500::nat) < 600" by simp_all
  let ?env = "sample_env ''errored'' 500 [] ''Error: bad apply''"
  let ?t1 = "[HttpGet (Request (RunById ''run-1'') (Some (JStr ''tok'')))]"
  obtain e where p: "plan_errors ?env (JStr ''tok'') (sample_run ''errored'') ?t1
      = (Inl e, ?t1 @ [HttpGet (Request (PlanById (JStr ''plan-1'')) (Some (JStr ''tok'')))])"
    using plan_errors_fails [OF sample_plan_fails [OF c]] by blast
  have a: "get_latest_run_error ?env ''net'' ''acme'' (JStr ''tok'') (Some ''run-1'') []
      = (Inr no_errors_found, ?t1 @ [HttpGet (Request (PlanById (JStr ''plan-1'')) (Some (JStr ''tok'')))])"
    unfolding get_latest_run_error_located [OF sample_locate]
      diagnose_run_errored [OF sample_run_fields(1) sample_run_fields(2) sample_run_fields(3)]
    by (simp add: p)
  have b: "apply_errors ?env (JStr ''tok'') (sample_run ''errored'')
             (?t1 @ [HttpGet (Request (PlanById (JStr ''plan-1'')) (Some (JStr ''tok'')))])
           = (Inr (Some (''Apply Error:'' @ [CHR 0x0A] @ ''Error: bad apply'' @ [CHR 0x0A])),
              (?t1 @ [HttpGet (Request (PlanById (JStr ''plan-1'')) (Some (JStr ''tok'')))])
               @ [HttpGet (Request (ApplyById (JStr ''apply-1'')) (Some (JStr ''tok''))),
                  HttpGet (Request (LogUrl (JStr ''https://logs/apply'')) None)])"
    using apply_errors_yields [OF sample_apply_yields, of "''errored''" 500 "[]" "''Error: bad apply''"]
    by (simp add: sample_extractions)
  show ?thesis using a b by (simp add: no_errors_found_def)
qed

section \<open>The Run Diagnoser on a run that did not fail\<close>

text \<open>
  Claim C6, as amended. When the located run's status is not \<open>errored\<close>, the Run Diagnoser
  returns the sentinel "No errors found in the latest run's plan or apply output." with
  no effect after locating the run; locating a run fetches no plan, apply or log. When no
  run is found (no run id is given and the workspace's list of runs is empty), it returns
  "No runs found for the workspace.".
\<close>

theorem sentinel_when_not_errored:
  "(locate_run env ws org tok rid t = (Inr (Inr run), t1)
      \<and> subscript run ''attributes'' = Inr attrs \<and> subscript attrs ''status'' = Inr st
      \<and> st \<noteq> JStr ''errored'' \<and> subscript run ''id'' = Inr i \<longrightarrow>
      get_latest_run_error env ws org tok rid t
        = (Inr ''No errors found in the latest run's plan or apply output.'', t1))
   \<and> (locate_run env ws org tok rid t = (r, t1) \<longrightarrow>
        (\<exists>ext. t1 = t @ ext \<and> list_all (\<lambda>e. \<not> sub_resource_fetch e) ext))
   \<and> ((rid = None \<or> rid = Some [])
        \<and> fetch_workspace_id env tok ws org t = (Inr workspace_id, ta)
        \<and> fetch_runs_data env tok workspace_id ta = (Inr runs_data, tb)
        \<and> truthy runs_data = False \<longrightarrow>
        get_latest_run_error env ws org tok rid t
          = (Inr ''No runs found for the workspace.'', tb))"
proof (intro conjI impI)
  assume "locate_run env ws org tok rid t = (Inr (Inr run), t1)
      \<and> subscript run ''attributes'' = Inr attrs \<and> subscript attrs ''status'' = Inr st
      \<and> st \<noteq> JStr ''errored'' \<and> subscript run ''id'' = Inr i"
  then show "get_latest_run_error env ws org tok rid t
        = (Inr ''No errors found in the latest run's plan or apply output.'', t1)"
    using get_latest_run_error_located [of env ws org tok rid t run t1]
      diagnose_run_not_errored [of run attrs st i env tok t1]
    by (simp add: no_errors_found_def)
next
  assume "locate_run env ws org tok rid t = (r, t1)"
  then show "\<exists>ext. t1 = t @ ext \<and> list_all (\<lambda>e. \<not> sub_resource_fetch e) ext"
    using locate_run_effects [of env ws org tok rid] unfolding only_effects_def
    by (metis snd_conv)
next
  assume a: "(rid = None \<or> rid = Some [])
        \<and> fetch_workspace_id env tok ws org t = (Inr workspace_id, ta)
        \<and> fetch_runs_data env tok workspace_id ta = (Inr runs_data, tb)
        \<and> truthy runs_data = False"
  then have "locate_run env ws org tok rid t = (Inr (Inl ''No runs found for the workspace.''), tb)"
    unfolding locate_run_def latest_run_of_workspace_def
    by (auto simp: io_bind_def io_return_def)
  then show "get_latest_run_error env ws org tok rid t
          = (Inr ''No runs found for the workspace.'', tb)"
    by (rule get_latest_run_error_no_runs)
qed


theorem sentinel_when_not_errored_witness:
  "get_latest_run_error (sample_env ''planning'' 200 ''Error: bad plan'' ''Error: bad apply'')
       ''net'' ''acme'' (JStr ''tok'') (Some ''run-1'') []
     = (Inr ''No errors found in the latest run's plan or apply output.'',
        [HttpGet (Request (RunById ''run-1'') (Some (JStr ''tok'')))])
   \<and> (\<exists>ext. [HttpGet (Request (RunById ''run-1'') (Some (JStr ''tok'')))] = [] @ ext
          \<and> list_all (\<lambda>e. \<not> sub_resource_fetch e) ext)
   \<and> get_latest_run_error (sample_env ''planning'' 200 ''Error: bad plan'' ''Error: bad apply'')
       ''net'' ''acme'' (JStr ''tok'') None []
     = (Inr ''No runs found for the workspace.'',
        [HttpGet (Request (WorkspaceByName ''acme'' ''net'') (Some (JStr ''tok''))),
         HttpGet (Request (RunsOfWorkspace (JStr ''ws-1'')) (Some (JStr ''tok'')))])"
proof -
  let ?env = "sample_env ''planning'' 200 ''Error: bad plan'' ''Error: bad apply''"
  let ?tok = "JStr ''tok''"
  have st: "JStr ''planning'' \<noteq> JStr ''errored''" by simp
  have w: "fetch_workspace_id ?env ?tok ''net'' ''acme'' []
           = (Inr (JStr ''ws-1''), [HttpGet (Request (WorkspaceByName ''acme'' ''net'') (Some ?tok))])"
    by (simp add: fetch_workspace_id_def sample_env_def sample_http_def ok_json_def
        io_bind_def requests_get_def raise_for_status_def io_return_def lift_def)
  have r: "fetch_runs_data ?env ?tok (JStr ''ws-1'')
             [HttpGet (Request (WorkspaceByName ''acme'' ''net'') (Some ?tok))]
           = (Inr (JArr []), [HttpGet (Request (WorkspaceByName ''acme'' ''net'') (Some ?tok)),
                              HttpGet (Request (RunsOfWorkspace (JStr ''ws-1'')) (Some ?tok))])"
    by (simp add: fetch_runs_data_def sample_env_def sample_http_def ok_json_def
        io_bind_def requests_get_def raise_for_status_def io_return_def lift_def)
  have e: "truthy (JArr []) = False" by simp
  note th1 = sentinel_when_not_errored
      [of ?env "''net''" "''acme''" ?tok "Some ''run-1''" "[]" "sample_run ''planning''"
          "[HttpGet (Request (RunById ''run-1'') (Some ?tok))]"
          "JObj [(''status'', JStr ''planning'')]" "JStr ''planning''" "JStr ''run-1''"
          "Inr (Inr (sample_run ''planning''))"]
  note th2 = sentinel_when_not_errored
      [of ?env "''net''" "''acme''" ?tok None "[]" _ _ _ _ _ _ "JStr ''ws-1''"
          "[HttpGet (Request (WorkspaceByName ''acme'' ''net'') (Some ?tok))]" "JArr []"
          "[HttpGet (Request (WorkspaceByName ''acme'' ''net'') (Some ?tok)),
            HttpGet (Request (RunsOfWorkspace (JStr ''ws-1'')) (Some ?tok))]"]
  have a: "get_latest_run_error ?env ''net'' ''acme'' ?tok (Some ''run-1'') []
     = (Inr ''No errors found in the latest run's plan or apply output.'',
        [HttpGet (Request (RunById ''run-1'') (Some ?tok))])"
    using th1 sample_locate [of "''planning''" 200 "''Error: bad plan''" "''Error: bad apply''" "''net''" "''acme''" ?tok]
      sample_run_fields(1-3) [of "''planning''"] st
    by blast
  have b: "\<exists>ext. [HttpGet (Request (RunById ''run-1'') (Some ?tok))] = [] @ ext
          \<and> list_all (\<lambda>e. \<not> sub_resource_fetch e) ext"
    using th1 sample_locate [of "''planning''" 200 "''Error: bad plan''" "''Error: bad apply''" "''net''" "''acme''" ?tok]
    by blast
  have c: "get_latest_run_error ?env ''net'' ''acme'' ?tok None []
     = (Inr ''No runs found for the workspace.'',
        [HttpGet (Request (WorkspaceByName ''acme'' ''net'') (Some ?tok)),
         HttpGet (Request (RunsOfWorkspace (JStr ''ws-1'')) (Some ?tok))])"
    using th2 w r e by blast
  show ?thesis by (intro conjI a b c)
qed

text \<open>
  With no run id and a workspace without runs, the result is "No runs found for the
  workspace.", which is not the "no errors found" sentinel.
\<close>

theorem no_runs_sentinel_counterexample:
  "get_latest_run_error (sample_env ''errored'' 200 [] []) ''net'' ''acme'' (JStr ''tok'') None []
     = (Inr ''No runs found for the workspace.'',
        [HttpGet (Request (WorkspaceByName ''acme'' ''net'') (Some (JStr ''tok''))),
         HttpGet (Request (RunsOfWorkspace (JStr ''ws-1'')) (Some (JStr ''tok'')))])
   \<and> ''No runs found for the workspace.''
       \<noteq> ''No errors found in the latest run's plan or apply output.''"
  using get_latest_run_error_no_runs [OF sample_no_runs, of "''errored''" 200 "[]" "[]" "''net''" "''acme''" "JStr ''tok''"]
  by simp

section \<open>The effects of the Diagnosis Request Handler\<close>

lemma get_secret_effect: "snd (get_secret env name t) = t @ [SecretRead name]"
  unfolding get_secret_def secrets_client_get_secret_value_def
  by (simp add: io_bind_def lift_def io_raise_def split: sum.splits option.splits)

lemma only_effects_prod:
  "(\<And>a b c. only_effects P (f a b c)) \<Longrightarrow> only_effects P (case p of (a, b, c) \<Rightarrow> f a b c)"
  by (cases p) simp

lemma get_latest_run_error_effects:
  "only_effects terraform_fetch (get_latest_run_error env ws org tok rid)"
  unfolding get_latest_run_error_def locate_run_def latest_run_of_workspace_def
    fetch_run_by_id_def fetch_workspace_id_def fetch_runs_data_def diagnose_run_def
    plan_errors_def apply_errors_def logs_error_lines_def
  by (intro only_effects_intros only_effects_if only_effects_option only_effects_sum
        only_effects_try) simp_all

lemma effects_after_secret:
  assumes "\<And>secret. only_effects P (rest_of secret)"
  shows "\<exists>rest. snd (io_bind (get_secret env name) rest_of t) = t @ SecretRead name # rest
               \<and> list_all P rest"
proof (cases "get_secret env name t")
  case (Pair r t')
  then have t': "t' = t @ [SecretRead name]"
    using get_secret_effect [of env name t] by simp
  show ?thesis
  proof (cases r)
    case (Inl e)
    then have "snd (io_bind (get_secret env name) rest_of t) = t @ SecretRead name # []"
      using Pair t' by (simp add: io_bind_def)
    moreover have "list_all P []" by simp
    ultimately show ?thesis by blast
  next
    case (Inr secret)
    from assms [of secret] obtain ext where
      e: "snd (rest_of secret t') = t' @ ext" "list_all P ext"
      unfolding only_effects_def by blast
    have "snd (io_bind (get_secret env name) rest_of t) = t @ SecretRead name # ext"
      using Pair Inr e(1) t' by (simp add: io_bind_def)
    then show ?thesis using e(2) by blast
  qed
qed

lemma try_except_return_effects:
  "snd (try_except m (\<lambda>e. io_return (f e)) t) = snd (m t)"
  by (simp add: try_except_def io_return_def split: prod.splits sum.splits)

text \<open>What is left of the handler's \<open>try\<close> once \<open>repo_url\<close> is known to be falsy.\<close>

lemma lambda_handler_fetch_without_repo:
  assumes "py_get event ''repo_url'' JNull = Inr repo_url" and "truthy repo_url = False"
  shows "lambda_handler_fetch env event =
     try_except
       (io_bind (lift (subscript event ''workspace_url'')) (\<lambda>workspace_url.
        io_bind (get_secret env (TERRAFORM_SECRET_NAME env)) (\<lambda>tfe_secret.
        io_bind (lift (subscript tfe_secret ''tfe_api_token'')) (\<lambda>tfe_api_token.
        io_bind (lift (split_workspace_url workspace_url)) (\<lambda>(workspace_name, org_name, run_id).
        io_bind (get_latest_run_error env workspace_name org_name tfe_api_token run_id)
          (\<lambda>error_message.
        io_return (success_response env [] error_message)))))))
       (\<lambda>e. io_return (failure_response env e))"
proof -
  from assms(1) obtain kvs where ev: "event = JObj kvs" by (cases event) auto
  have b: "\<exists>b. py_get event ''branch_name'' (JStr ''main'') = Inr b" by (simp add: ev)
  then obtain b where "py_get event ''branch_name'' (JStr ''main'') = Inr b" by blast
  then show ?thesis
    unfolding lambda_handler_fetch_def
    by (simp add: assms io_bind_lift_Inr io_bind_return)
qed


lemma diagnosis_chain_success:
  assumes "io_bind (lift (subscript event ''workspace_url'')) (\<lambda>workspace_url.
        io_bind (get_secret env (TERRAFORM_SECRET_NAME env)) (\<lambda>tfe_secret.
        io_bind (lift (subscript tfe_secret ''tfe_api_token'')) (\<lambda>tfe_api_token.
        io_bind (lift (split_workspace_url workspace_url)) (\<lambda>(workspace_name, org_name, run_id).
        io_bind (get_latest_run_error env workspace_name org_name tfe_api_token run_id)
          (\<lambda>error_message.
        io_return (success_response env [] error_message)))))) t = (Inr resp, t2)"
  shows "\<exists>workspace_url tfe_secret t1 tok ws org rid error_message.
           subscript event ''workspace_url'' = Inr workspace_url
         \<and> get_secret env (TERRAFORM_SECRET_NAME env) t = (Inr tfe_secret, t1)
         \<and> subscript tfe_secret ''tfe_api_token'' = Inr tok
         \<and> split_workspace_url workspace_url = Inr (ws, org, rid)
         \<and> get_latest_run_error env ws org tok rid t1 = (Inr error_message, t2)
         \<and> resp = success_response env [] error_message"
  using assms
  by (auto simp: io_bind_def lift_def io_return_def split: sum.splits prod.splits)

section \<open>The Troubleshooting Request Handler's envelope\<close>

lemma final_response_is_envelope:
  assumes "troubleshooting_steps_response env event ag fn parameters = Inr r"
    and "subscript event ''messageVersion'' = Inr mv"
  shows "\<exists>body. r = envelope ag fn body mv"
  using assms unfolding troubleshooting_steps_response_def
  by (auto simp: bindE_def split: sum.splits if_splits)

lemma event_with_key_has_get:
  "subscript event key = Inr v \<Longrightarrow> \<exists>p. py_get event key' d = Inr p"
  by (cases event) auto

text \<open>
  Claim C7, as amended. On every event that carries the keys \<open>agent\<close>, \<open>actionGroup\<close>,
  \<open>function\<close> and \<open>messageVersion\<close>, whatever the stage-one call, the model call and the
  parsers do, the handler raises nothing and returns the dict
  \<open>{response: {actionGroup, function, functionResponse: {responseBody: {TEXT: {body}}}},
  messageVersion}\<close> with the event's action group, function and message version.
\<close>

theorem troubleshooting_handler_always_answers:
  assumes "subscript event ''agent'' = Inr agent"
    and "subscript event ''actionGroup'' = Inr ag"
    and "subscript event ''function'' = Inr fn"
    and "subscript event ''messageVersion'' = Inr mv"
  shows "\<exists>body. lambda_handler_troubleshooting env event =
           Inr (JObj [(''response'',
                         JObj [(''actionGroup'', ag),
                               (''function'', fn),
                               (''functionResponse'',
                                  JObj [(''responseBody'',
                                           JObj [(''TEXT'', JObj [(''body'', body)])])])]),
                      (''messageVersion'', mv)])"
proof -
  obtain parameters where p: "py_get event ''parameters'' (JObj []) = Inr parameters"
    using event_with_key_has_get [OF assms(1)] by blast
  have "\<exists>body. lambda_handler_troubleshooting env event = Inr (envelope ag fn body mv)"
  proof (cases "troubleshooting_steps_response env event ag fn parameters")
    case (Inr r)
    then obtain body where "r = envelope ag fn body mv"
      using final_response_is_envelope [OF _ assms(4)] by blast
    then have "lambda_handler_troubleshooting env event = Inr (envelope ag fn body mv)"
      unfolding lambda_handler_troubleshooting_def by (simp add: assms p Inr bindE_def)
    then show ?thesis by blast
  next
    case (Inl e)
    have same: "\<And>b. \<exists>body. envelope ag fn b mv = envelope ag fn body mv" by blast
    from Inl show ?thesis
      unfolding lambda_handler_troubleshooting_def
      by (cases e) (simp_all add: assms p bindE_def same)
  qed
  then show ?thesis unfolding envelope_def .
qed

theorem troubleshooting_handler_always_answers_witness:
  "\<exists>body. lambda_handler_troubleshooting sample_agent_env sample_event =
     Inr (JObj [(''response'',
                   JObj [(''actionGroup'', JStr ''troubleshoot''),
                         (''function'', JStr ''diagnose''),
                         (''functionResponse'',
                            JObj [(''responseBody'',
                                     JObj [(''TEXT'', JObj [(''body'', body)])])])]),
                (''messageVersion'', JStr ''1.0'')])"
proof -
  have k: "subscript sample_event ''agent'' = Inr (JObj [(''name'', JStr ''helper'')])"
    "subscript sample_event ''actionGroup'' = Inr (JStr ''troubleshoot'')"
    "subscript sample_event ''function'' = Inr (JStr ''diagnose'')"
    "subscript sample_event ''messageVersion'' = Inr (JStr ''1.0'')"
    by (simp_all add: sample_event_def)
  show ?thesis
    by (rule troubleshooting_handler_always_answers [OF k])
qed

text \<open>
  The reads of the event before the \<open>try\<close>, and the read of \<open>messageVersion\<close> in the
  handlers, are not guarded: the empty event, and the sample event without its
  \<open>messageVersion\<close>, make the handler raise \<open>KeyError\<close>.
\<close>

theorem event_without_keys_counterexample:
  "lambda_handler_troubleshooting sample_agent_env (JObj []) = Inl (KeyError ''agent'')
   \<and> lambda_handler_troubleshooting sample_agent_env
        (JObj [(''agent'', JObj [(''name'', JStr ''helper'')]),
               (''actionGroup'', JStr ''troubleshoot''),
               (''function'', JStr ''diagnose''),
               (''parameters'', JArr [])])
      = Inl (KeyError ''messageVersion'')"
  by (simp add: lambda_handler_troubleshooting_def troubleshooting_steps_response_def
        remote_response_body_def sample_agent_env_def bindE_def properties_get_def Let_def
        missing_data_message_def)

text \<open>
  Claim C9. On an event with the four keys, when the remote call yields a response body
  whose \<open>error_message\<close> is \<open>None\<close> (absent or null) and whose \<open>files_content\<close> is the empty
  string (absent or empty), the \<open>try\<close> raises \<open>KeyError\<close> with the missing-data message, and
  the handler returns the dict
  \<open>{response: {actionGroup, function, functionResponse: {responseBody: {TEXT: {body}}}},
  messageVersion}\<close> whose \<open>body\<close> is the string "Missing required information: " followed by
  the text of that error; the body does not start with "Error: ".
\<close>

theorem missing_data_envelope:
  assumes "subscript event ''agent'' = Inr agent"
    and "subscript event ''actionGroup'' = Inr ag"
    and "subscript event ''function'' = Inr fn"
    and "subscript event ''messageVersion'' = Inr mv"
    and "py_get event ''parameters'' (JObj []) = Inr parameters"
    and "remote_response_body env parameters = Inr response_body"
    and "py_get response_body ''error_message'' JNull = Inr JNull"
    and "py_get response_body ''files_content'' (JStr []) = Inr (JStr [])"
  shows "troubleshooting_steps_response env event ag fn parameters
           = Inl (KeyError
               ''Neither 'files_content' nor 'error_message' were found in the response from Lambda 2'')
       \<and> (\<exists>body.
             lambda_handler_troubleshooting env event =
               Inr (JObj [(''response'',
                             JObj [(''actionGroup'', ag),
                                   (''function'', fn),
                                   (''functionResponse'',
                                      JObj [(''responseBody'',
                                               JObj [(''TEXT'', JObj [(''body'', JStr body)])])])]),
                          (''messageVersion'', mv)])
           \<and> body = ''Missing required information: ''
                 @ exc_str env (KeyError
                     ''Neither 'files_content' nor 'error_message' were found in the response from Lambda 2'')
           \<and> prefix ''Missing required information'' body
           \<and> \<not> prefix ''Error: '' body)"
proof -
  have r: "troubleshooting_steps_response env event ag fn parameters
           = Inl (KeyError missing_data_message)"
    unfolding troubleshooting_steps_response_def by (simp add: assms bindE_def)
  have h: "lambda_handler_troubleshooting env event
      = Inr (envelope ag fn
          (JStr (''Missing required information: '' @ exc_str env (KeyError missing_data_message))) mv)"
    unfolding lambda_handler_troubleshooting_def by (simp add: assms r bindE_def)
  have p: "prefix ''Missing required information''
             (''Missing required information: '' @ exc_str env (KeyError missing_data_message))"
    by (simp add: prefix_def)
  have n: "\<not> prefix ''Error: ''
             (''Missing required information: '' @ exc_str env (KeyError missing_data_message))"
    by (simp add: prefix_def)
  show ?thesis
    using r h p n unfolding envelope_def missing_data_message_def by blast
qed

theorem missing_data_envelope_witness:
  \<open>troubleshooting_steps_response sample_agent_env sample_event
       (JStr ''troubleshoot'') (JStr ''diagnose'')
       (JArr [JObj [(''name'', JStr ''workspace_url''),
                    (''value'', JStr ''https://app.terraform.io/app/acme/workspaces/net'')]])
     = Inl (KeyError
         ''Neither 'files_content' nor 'error_message' were found in the response from Lambda 2'')
   \<and> lambda_handler_troubleshooting sample_agent_env sample_event =
       Inr (JObj [(''response'',
                     JObj [(''actionGroup'', JStr ''troubleshoot''),
                           (''function'', JStr ''diagnose''),
                           (''functionResponse'',
                              JObj [(''responseBody'',
                                 JObj [(''TEXT'', JObj [(''body'', JStr
  ''Missing required information: "Neither 'files_content' nor 'error_message' were found in the response from Lambda 2"'')])])])]),
                  (''messageVersion'', JStr ''1.0'')])\<close>
proof -
  let ?ps = "JArr [JObj [(''name'', JStr ''workspace_url''),
                    (''value'', JStr ''https://app.terraform.io/app/acme/workspaces/net'')]]"
  let ?rb = "JObj [(''files_content'', JStr []), (''error_message'', JNull)]"
  have k: "subscript sample_event ''agent'' = Inr (JObj [(''name'', JStr ''helper'')])"
    "subscript sample_event ''actionGroup'' = Inr (JStr ''troubleshoot'')"
    "subscript sample_event ''function'' = Inr (JStr ''diagnose'')"
    "subscript sample_event ''messageVersion'' = Inr (JStr ''1.0'')"
    "py_get sample_event ''parameters'' (JObj []) = Inr ?ps"
    by (simp_all add: sample_event_def)
  have b: "remote_response_body sample_agent_env ?ps = Inr ?rb"
    by (simp add: remote_response_body_def sample_agent_env_def bindE_def Let_def)
  have g: "py_get ?rb ''error_message'' JNull = Inr JNull"
    "py_get ?rb ''files_content'' (JStr []) = Inr (JStr [])"
    by simp_all
  have x: \<open>exc_str sample_agent_env (KeyError
       ''Neither 'files_content' nor 'error_message' were found in the response from Lambda 2'')
     = ''"Neither 'files_content' nor 'error_message' were found in the response from Lambda 2"''\<close>
    by (simp add: sample_agent_env_def sample_exc_str_def)
  from missing_data_envelope [OF k b g] show ?thesis
    unfolding x by auto
qed

section \<open>The Diagnosis Request Handler without a repository\<close>

text \<open>
  Claim C10. On an event whose \<open>repo_url\<close> is absent or falsy, the effects of the handler
  are none, or one read of the Terraform secret followed by GETs of the Run Diagnoser only:
  no second (VCS) secret is read and no GitLab endpoint is fetched. When the Terraform
  secret, the resolver and the Run Diagnoser succeed, the response is the dict with
  \<open>statusCode\<close> 200 and, as \<open>body\<close>, the \<open>json.dumps\<close> of the dict with \<open>files_content\<close> the
  empty string and \<open>error_message\<close> the Run Diagnoser's result, the diagnoser having run
  right after the secret read on the resolver's output; and every response of status 200
  is of that form.
\<close>

theorem no_repo_url_skips_repository:
  assumes "py_get event ''repo_url'' JNull = Inr repo_url" and "truthy repo_url = False"
  shows "(\<exists>ext. snd (lambda_handler_fetch env event t) = t @ ext
            \<and> (ext = [] \<or> (\<exists>rest. ext = SecretRead (TERRAFORM_SECRET_NAME env) # rest
                               \<and> list_all terraform_fetch rest)))
       \<and> (subscript event ''workspace_url'' = Inr workspace_url
            \<and> get_secret env (TERRAFORM_SECRET_NAME env) t = (Inr tfe_secret, t1)
            \<and> subscript tfe_secret ''tfe_api_token'' = Inr tok
            \<and> split_workspace_url workspace_url = Inr (ws, org, rid)
            \<and> get_latest_run_error env ws org tok rid t1 = (Inr error_message, t2)
          \<longrightarrow> lambda_handler_fetch env event t
                = (Inr (JObj [(''statusCode'', JNum 200),
                              (''body'', JStr (json_dumps env
                                 (JObj [(''files_content'', JStr []),
                                        (''error_message'', JStr error_message)])))]),
                   t2))
       \<and> (fst (lambda_handler_fetch env event t) = Inr resp
            \<and> subscript resp ''statusCode'' = Inr (JNum 200)
          \<longrightarrow> (\<exists>ws' org' rid' tok' ta tb message.
                  get_latest_run_error env ws' org' tok' rid' ta = (Inr message, tb)
                \<and> resp = JObj [(''statusCode'', JNum 200),
                                (''body'', JStr (json_dumps env
                                   (JObj [(''files_content'', JStr []),
                                          (''error_message'', JStr message)])))]))"
proof (intro conjI impI)
  note h = lambda_handler_fetch_without_repo [OF assms, of env]
  show "\<exists>ext. snd (lambda_handler_fetch env event t) = t @ ext
            \<and> (ext = [] \<or> (\<exists>rest. ext = SecretRead (TERRAFORM_SECRET_NAME env) # rest
                               \<and> list_all terraform_fetch rest))"
  proof (cases "subscript event ''workspace_url''")
    case (Inl e)
    then have "snd (lambda_handler_fetch env event t) = t @ []"
      unfolding h try_except_return_effects by (simp add: io_bind_def lift_def)
    then show ?thesis by blast
  next
    case (Inr workspace_url)
    have "\<exists>rest. snd (lambda_handler_fetch env event t)
                  = t @ SecretRead (TERRAFORM_SECRET_NAME env) # rest
               \<and> list_all terraform_fetch rest"
      unfolding h try_except_return_effects Inr io_bind_lift_Inr
      by (rule effects_after_secret)
         (intro only_effects_intros only_effects_prod get_latest_run_error_effects)
    then show ?thesis by blast
  qed
next
  assume a: "subscript event ''workspace_url'' = Inr workspace_url
            \<and> get_secret env (TERRAFORM_SECRET_NAME env) t = (Inr tfe_secret, t1)
            \<and> subscript tfe_secret ''tfe_api_token'' = Inr tok
            \<and> split_workspace_url workspace_url = Inr (ws, org, rid)
            \<and> get_latest_run_error env ws org tok rid t1 = (Inr error_message, t2)"
  then show "lambda_handler_fetch env event t
                = (Inr (JObj [(''statusCode'', JNum 200),
                              (''body'', JStr (json_dumps env
                                 (JObj [(''files_content'', JStr []),
                                        (''error_message'', JStr error_message)])))]),
                   t2)"
    unfolding lambda_handler_fetch_without_repo [OF assms, of env]
    by (simp add: try_except_def io_bind_def lift_def io_return_def success_response_def)
next
  assume b: "fst (lambda_handler_fetch env event t) = Inr resp
            \<and> subscript resp ''statusCode'' = Inr (JNum 200)"
  let ?chain = "io_bind (lift (subscript event ''workspace_url'')) (\<lambda>workspace_url.
        io_bind (get_secret env (TERRAFORM_SECRET_NAME env)) (\<lambda>tfe_secret.
        io_bind (lift (subscript tfe_secret ''tfe_api_token'')) (\<lambda>tfe_api_token.
        io_bind (lift (split_workspace_url workspace_url)) (\<lambda>(workspace_name, org_name, run_id).
        io_bind (get_latest_run_error env workspace_name org_name tfe_api_token run_id)
          (\<lambda>error_message.
        io_return (success_response env [] error_message))))))"
  obtain r t' where c: "?chain t = (r, t')" by (cases "?chain t") blast
  have "\<exists>ws' org' rid' tok' ta tb message.
                  get_latest_run_error env ws' org' tok' rid' ta = (Inr message, tb)
                \<and> resp = success_response env [] message"
  proof (cases r)
    case (Inl e)
    then have "fst (lambda_handler_fetch env event t) = Inr (failure_response env e)"
      unfolding lambda_handler_fetch_without_repo [OF assms, of env]
      using c by (simp add: try_except_def io_return_def)
    with b have "subscript (failure_response env e) ''statusCode'' = Inr (JNum 200)" by simp
    then show ?thesis by (simp add: failure_response_def)
  next
    case (Inr v)
    then have "fst (lambda_handler_fetch env event t) = Inr v"
      unfolding lambda_handler_fetch_without_repo [OF assms, of env]
      using c by (simp add: try_except_def)
    with b have "v = resp" by simp
    with c Inr have "?chain t = (Inr resp, t')" by simp
    from diagnosis_chain_success [OF this] show ?thesis by blast
  qed
  then show "\<exists>ws' org' rid' tok' ta tb message.
                  get_latest_run_error env ws' org' tok' rid' ta = (Inr message, tb)
                \<and> resp = JObj [(''statusCode'', JNum 200),
                                (''body'', JStr (json_dumps env
                                   (JObj [(''files_content'', JStr []),
                                          (''error_message'', JStr message)])))]"
    unfolding success_response_def .
qed


theorem no_repo_url_skips_repository_witness:
  "(\<exists>ext. snd (lambda_handler_fetch sample_fetch_env
                 (JObj [(''workspace_url'',
                    JStr ''https://app.terraform.io/app/organizations/acme/workspaces/net/runs/run-1'')])
                 []) = [] @ ext
          \<and> (ext = [] \<or> (\<exists>rest. ext = SecretRead (TERRAFORM_SECRET_NAME sample_fetch_env) # rest
                             \<and> list_all terraform_fetch rest)))
   \<and> lambda_handler_fetch sample_fetch_env
        (JObj [(''workspace_url'',
           JStr ''https://app.terraform.io/app/organizations/acme/workspaces/net/runs/run-1'')])
        []
      = (Inr (JObj [(''statusCode'', JNum 200),
                    (''body'', JStr
  ''files_content=;error_message=No errors found in the latest run's plan or apply output.;'')]),
         [SecretRead (Some ''tfe''),
          HttpGet (Request (RunById ''run-1'') (Some (JStr ''tok'')))])"
proof -
  let ?env = "sample_fetch_env"
  let ?url = "JStr ''https://app.terraform.io/app/organizations/acme/workspaces/net/runs/run-1''"
  let ?event = "JObj [(''workspace_url'', ?url)]"
  let ?secret = "JObj [(''tfe_api_token'', JStr ''tok'')]"
  have r: "py_get ?event ''repo_url'' JNull = Inr JNull" by simp
  have f: "truthy JNull = False" by simp
  have w: "subscript ?event ''workspace_url'' = Inr ?url" by simp
  have s: "get_secret ?env (TERRAFORM_SECRET_NAME ?env) [] = (Inr ?secret, [SecretRead (Some ''tfe'')])"
    by (simp add: get_secret_def secrets_client_get_secret_value_def sample_fetch_env_def
          sample_env_def io_bind_def lift_def)
  have k: "subscript ?secret ''tfe_api_token'' = Inr (JStr ''tok'')" by simp
  have u: "get_workspace_id_from_url
             ''https://app.terraform.io/app/organizations/acme/workspaces/net/runs/run-1''
           = Inr (''net'', ''acme'', Some ''run-1'')"
    by code_simp
  have p: "split_workspace_url ?url = Inr (''net'', ''acme'', Some ''run-1'')"
    by (simp add: split_workspace_url_def u)
  have l: "locate_run ?env ''net'' ''acme'' (JStr ''tok'') (Some ''run-1'') [SecretRead (Some ''tfe'')]
       = (Inr (Inr (sample_run ''planning'')),
          [SecretRead (Some ''tfe''), HttpGet (Request (RunById ''run-1'') (Some (JStr ''tok'')))])"
    by (simp add: locate_run_def fetch_run_by_id_def sample_fetch_env_def sample_env_def
        sample_http_def ok_json_def io_bind_def requests_get_def raise_for_status_def
        io_return_def lift_def)
  have st: "JStr ''planning'' \<noteq> JStr ''errored''" by simp
  have d: "get_latest_run_error ?env ''net'' ''acme'' (JStr ''tok'') (Some ''run-1'')
             [SecretRead (Some ''tfe'')]
           = (Inr ''No errors found in the latest run's plan or apply output.'',
              [SecretRead (Some ''tfe''), HttpGet (Request (RunById ''run-1'') (Some (JStr ''tok'')))])"
    unfolding get_latest_run_error_located [OF l]
      diagnose_run_not_errored [OF sample_run_fields(1) sample_run_fields(2) sample_run_fields(3) st]
    by (simp add: no_errors_found_def)
  have j: "json_dumps sample_fetch_env
             (JObj [(''files_content'', JStr []),
                    (''error_message'',
                       JStr ''No errors found in the latest run's plan or apply output.'')])
           = ''files_content=;error_message=No errors found in the latest run's plan or apply output.;''"
    by (simp add: sample_fetch_env_def sample_dumps_def)
  note th = no_repo_url_skips_repository [OF r f, of ?env "[]"]
  note e = th [THEN conjunct1]
  note c = th [THEN conjunct2, THEN conjunct1, THEN mp,
      OF conjI [OF w conjI [OF s conjI [OF k conjI [OF p d]]]]]
  show ?thesis
    using e c unfolding j by blast
qed

end
